theory Spec2Isabelle
  imports Complex_Main "HOL-Library.Sublist"
begin

section \<open>Python values used by the report module\<close>

text \<open>
  The module \<^verbatim>\<open>core/pdf.py\<close> builds PDF reports from ORM objects. Its collaborators
  (the layout library, the file system, the storage backend, the HTTP client, the text
  shaping packages) are not part of the repository; they appear below as the fields of an
  environment record, each returning either a value or the exception it raises. A Python
  function keeps its name here, without its leading underscore.

  Text is held as \<^typ>\<open>string\<close>, the UTF-8 bytes of the Python string: the operations the
  module uses on text (concatenation, dictionary lookup, emptiness, a test for a leading
  slash) agree on both representations.
\<close>

type_synonym bytes = "char list"

text \<open>Exceptions. All of them are instances of Python's \<^verbatim>\<open>Exception\<close>, so a handler
  \<^verbatim>\<open>except Exception\<close> catches each one; a handler \<^verbatim>\<open>except OSError\<close> catches only the
  first.\<close>

datatype exn =
  OSError | ValueError | TypeError | OverflowError | AttributeError | NotImplementedError |
  RuntimeError

text \<open>The values \<^verbatim>\<open>rating_label\<close> is called with: a rating field of an evaluation
  (an integer, or \<^verbatim>\<open>None\<close>), and, through \<^verbatim>\<open>rating_bilingual_html_from_average\<close>,
  a string.\<close>

datatype pyvalue = VNone | VInt int | VStr string

text \<open>A float is its exact value, or one of the three special values. No arithmetic is
  done on floats here: they are only rounded to an integer.\<close>

datatype pyfloat = Finite rat | PosInf | NegInf | NaN

subsection \<open>\<^verbatim>\<open>str\<close> and \<^verbatim>\<open>int\<close>\<close>

definition digit_char :: "nat \<Rightarrow> char" where
  "digit_char d = ''0123456789'' ! d"

function str_nat :: "nat \<Rightarrow> string" where
  "str_nat n = (if n < 10 then [digit_char n] else str_nat (n div 10) @ [digit_char (n mod 10)])"
  by pat_completeness auto
termination
  by (relation "measure id") auto

declare str_nat.simps [simp del]

definition str_int :: "int \<Rightarrow> string" where
  "str_int i = (if i < 0 then CHR ''-'' # str_nat (nat (- i)) else str_nat (nat i))"

text \<open>CPython refuses to convert between \<^verbatim>\<open>int\<close> and \<^verbatim>\<open>str\<close> when more than 4300 digits
  are involved and raises \<^verbatim>\<open>ValueError\<close>.\<close>

definition max_str_digits :: nat where
  "max_str_digits = 4300"

fun py_str :: "pyvalue \<Rightarrow> exn + string" where
  "py_str VNone = Inr ''None''"
| "py_str (VInt i) = (if 10 ^ max_str_digits \<le> \<bar>i\<bar> then Inl ValueError else Inr (str_int i))"
| "py_str (VStr s) = Inr s"

text \<open>\<^verbatim>\<open>int(s)\<close> for a string: surrounding white space is dropped, one sign is allowed,
  and the rest must be decimal digits, at most 4300 of them, single underscores allowed
  between two digits. Anything else raises \<^verbatim>\<open>ValueError\<close>. Only the ASCII digits and
  blanks are recognised here: a string with a decimal digit or a blank outside ASCII is not
  covered. Every string the module passes to \<^verbatim>\<open>int\<close> is one of the five labels or the
  dash of \<^verbatim>\<open>unknown_marker\<close>.\<close>

definition is_space :: "char \<Rightarrow> bool" where
  "is_space c = (let n = (of_char c :: nat) in (9 \<le> n \<and> n \<le> 13) \<or> n = 32)"

definition is_digit :: "char \<Rightarrow> bool" where
  "is_digit c = (let n = (of_char c :: nat) in 48 \<le> n \<and> n \<le> 57)"

definition digit_val :: "char \<Rightarrow> nat" where
  "digit_val c = of_char c - 48"

fun digits_value :: "string \<Rightarrow> nat \<Rightarrow> bool \<Rightarrow> nat option" where
  "digits_value [] acc prev = (if prev then Some acc else None)"
| "digits_value (c # cs) acc prev =
     (if is_digit c then digits_value cs (10 * acc + digit_val c) True
      else if c = CHR ''_'' \<and> prev then digits_value cs acc False
      else None)"

definition strip :: "string \<Rightarrow> string" where
  "strip s = rev (dropWhile is_space (rev (dropWhile is_space s)))"

definition int_of_str :: "string \<Rightarrow> exn + int" where
  "int_of_str s =
     (case strip s of
        [] \<Rightarrow> Inl ValueError
      | c # cs \<Rightarrow>
          (if max_str_digits < length (filter is_digit (c # cs)) then Inl ValueError
           else if c = CHR ''-'' then
             (case digits_value cs 0 False of None \<Rightarrow> Inl ValueError | Some n \<Rightarrow> Inr (- int n))
           else if c = CHR ''+'' then
             (case digits_value cs 0 False of None \<Rightarrow> Inl ValueError | Some n \<Rightarrow> Inr (int n))
           else
             (case digits_value (c # cs) 0 False of None \<Rightarrow> Inl ValueError | Some n \<Rightarrow> Inr (int n))))"

text \<open>\<^verbatim>\<open>int(value)\<close>; \<^verbatim>\<open>int(None)\<close> raises \<^verbatim>\<open>TypeError\<close>, an \<^verbatim>\<open>Exception\<close> too.\<close>

fun py_int :: "pyvalue \<Rightarrow> exn + int" where
  "py_int VNone = Inl TypeError"
| "py_int (VInt i) = Inr i"
| "py_int (VStr s) = int_of_str s"

text \<open>\<^verbatim>\<open>round(x)\<close> of a float, with one argument: the nearest integer, a tie going to the
  even one; \<^verbatim>\<open>OverflowError\<close> on an infinity and \<^verbatim>\<open>ValueError\<close> on a NaN.\<close>

definition round_half_even :: "rat \<Rightarrow> int" where
  "round_half_even q =
     (let f = \<lfloor>q\<rfloor>; d = q - of_int f in
      if d < 1 / 2 then f else if 1 / 2 < d then f + 1 else if even f then f else f + 1)"

fun py_round :: "pyfloat \<Rightarrow> exn + int" where
  "py_round (Finite q) = Inr (round_half_even q)"
| "py_round PosInf = Inl OverflowError"
| "py_round NegInf = Inl OverflowError"
| "py_round NaN = Inl ValueError"

section \<open>Rating labels\<close>

text \<open>The dash \<^verbatim>\<open>U+2014\<close> that stands for an unknown rating.\<close>

definition unknown_marker :: string where
  "unknown_marker = [CHR 0xE2, CHR 0x80, CHR 0x94]"

definition RATING_LABELS :: "int \<rightharpoonup> string" where
  "RATING_LABELS =
     [1 \<mapsto> ''Bad'', 2 \<mapsto> ''Not bad'', 3 \<mapsto> ''Good'', 4 \<mapsto> ''Very Good'', 5 \<mapsto> ''Excellent'']"

text \<open>In \<^verbatim>\<open>RATING_LABELS.get(int(value), str(value))\<close> both arguments are evaluated before
  the lookup, so an exception of either sends the call to the handler.\<close>

definition rating_label :: "pyvalue \<Rightarrow> string" where
  "rating_label v =
     (if v = VNone then unknown_marker
      else case py_int v of
             Inl e \<Rightarrow> unknown_marker
           | Inr n \<Rightarrow>
               (case py_str v of
                  Inl e \<Rightarrow> unknown_marker
                | Inr d \<Rightarrow> (case RATING_LABELS n of Some l \<Rightarrow> l | None \<Rightarrow> d)))"

definition rating_label_from_average :: "pyfloat option \<Rightarrow> string" where
  "rating_label_from_average avg =
     (case avg of
        None \<Rightarrow> unknown_marker
      | Some a \<Rightarrow>
          (case py_round a of
             Inl e \<Rightarrow> unknown_marker
           | Inr r \<Rightarrow> rating_label (VInt (max 1 (min 5 r)))))"

section \<open>The environment\<close>

text \<open>An image flowable remembers where its pixels come from: a file it will open when the
  document is built, or a reader over bytes already in memory.\<close>

datatype image_source = FromFile string | FromReader bytes

record image =
  img_src :: image_source
  img_width :: nat
  img_height :: nat
  hAlign :: "string option"

text \<open>A paragraph style of the layout library. The sample style sheet belongs to the
  library, so it is a field of the environment.\<close>

record style =
  style_name :: string
  fontName :: string
  fontSize :: nat
  leading :: nat
  alignment :: nat

text \<open>The document tree handed to the layout engine. A table cell holds a text (the empty
  text is the placeholder of a missing image), \<^verbatim>\<open>None\<close>, an image or a paragraph. A table
  style command is its name, the two corner cells and the remaining arguments as text.\<close>

datatype cell = CText string | CNone | CImage image | CPara string style

type_synonym style_cmd = "string \<times> (int \<times> int) \<times> (int \<times> int) \<times> string list"

datatype flowable =
    Paragraph string style
  | Spacer nat nat
  | Table "cell list list" "nat option list" nat "style_cmd list"

text \<open>The arguments of \<^verbatim>\<open>SimpleDocTemplate\<close> besides the buffer: the page size and the
  four margins (\<open>None\<close>: the library's default).\<close>

record doc_template =
  pagesize :: string
  leftMargin :: "nat option"
  rightMargin :: "nat option"
  topMargin :: "nat option"
  bottomMargin :: "nat option"

text \<open>What \<^verbatim>\<open>doc.build(story)\<close> does: it writes the document's bytes to the buffer and
  returns, or raises, having written some bytes (possibly none) before.\<close>

datatype build_outcome = Built bytes | Failed exn bytes

text \<open>Everything outside the repository. A field that can fail returns the exception
  instead of the value (\<open>exn option\<close> for a call made only for its effect: \<open>None\<close> is
  success). \<open>paragraph_ctor\<close> is the making of a paragraph: the layout library parses
  the markup of the text then, and raises \<^verbatim>\<open>ValueError\<close> on markup it cannot read.
  Spacers and tables store their arguments.\<close>

record env =
  module_dir :: string
  BASE_DIR :: string
  MEDIA_ROOT :: string
  PUBLIC_BASE_URL :: string
  LOGO_URL :: string
  path_exists :: "string \<Rightarrow> exn + bool"
  path_is_file :: "string \<Rightarrow> exn + bool"
  image_reader_file :: "string \<Rightarrow> exn option"
  image_reader_bytes :: "bytes \<Rightarrow> exn option"
  image_ctor :: "image_source \<Rightarrow> exn option"
  urlopen_read :: "string \<Rightarrow> exn + bytes"
  urljoin :: "string \<Rightarrow> string \<Rightarrow> string"
  load_font :: "string \<Rightarrow> exn option"
  shaper :: "(string \<Rightarrow> exn + string) option"
  styles :: "string \<Rightarrow> style"
  paragraph_ctor :: "string \<Rightarrow> style \<Rightarrow> exn option"
  doc_build :: "doc_template \<Rightarrow> flowable list \<Rightarrow> build_outcome"

section \<open>Paths\<close>

definition startswith :: "string \<Rightarrow> string \<Rightarrow> bool" where
  "startswith s pre = (take (length pre) s = pre)"

fun join :: "string \<Rightarrow> string list \<Rightarrow> string" where
  "join sep [] = []"
| "join sep [x] = x"
| "join sep (x # y # ys) = x @ sep @ join sep (y # ys)"

text \<open>A path of \<^verbatim>\<open>pathlib\<close> on a POSIX system, as its text. Making a path keeps the
  root (one slash, or exactly two) and the parts between slashes, without the empty
  parts and the parts that are a single dot; the text of a path with neither root nor
  part is a dot.\<close>

fun split_slash :: "string \<Rightarrow> string list" where
  "split_slash [] = [[]]"
| "split_slash (c # cs) =
     (if c = CHR ''/'' then [] # split_slash cs
      else (case split_slash cs of [] \<Rightarrow> [[c]] | p # ps \<Rightarrow> (c # p) # ps))"

definition path_parts :: "string \<Rightarrow> string list" where
  "path_parts s = filter (\<lambda>p. p \<noteq> [] \<and> p \<noteq> ''.'') (split_slash s)"

definition path_root :: "string \<Rightarrow> string" where
  "path_root s =
     (if startswith s ''//'' \<and> \<not> startswith s ''///'' then ''//''
      else if startswith s ''/'' then ''/''
      else [])"

definition path_build :: "string \<Rightarrow> string list \<Rightarrow> string" where
  "path_build r ps = (if r = [] \<and> ps = [] then ''.'' else r @ join ''/'' ps)"

text \<open>\<^verbatim>\<open>str(Path(s))\<close>, \<^verbatim>\<open>Path(a) / b\<close> (an absolute \<open>b\<close> replaces \<open>a\<close>) and
  \<^verbatim>\<open>Path(a).parent\<close>.\<close>

definition path_str :: "string \<Rightarrow> string" where
  "path_str s = path_build (path_root s) (path_parts s)"

definition path_join :: "string \<Rightarrow> string \<Rightarrow> string" where
  "path_join a b =
     (if path_root b \<noteq> [] then path_str b
      else path_build (path_root a) (path_parts a @ path_parts b))"

definition path_parent :: "string \<Rightarrow> string" where
  "path_parent a = path_build (path_root a) (butlast (path_parts a))"

section \<open>Arabic font registration and shaping\<close>

text \<open>The two pieces of process-wide state the module touches: the font registry of
  \<^verbatim>\<open>pdfmetrics\<close> (font name to the file it was loaded from) and the TrueType search path
  of \<^verbatim>\<open>rl_config\<close>, which the module rebuilds from a set.\<close>

record font_state =
  registered :: "string \<rightharpoonup> string"
  TTFSearchPath :: "string set"

definition local_fonts :: "string \<Rightarrow> string list" where
  "local_fonts base =
     [path_join (path_join base ''fonts'') ''NotoNaskhArabic-Regular.ttf'',
      path_join (path_join base ''fonts'') ''DejaVuSans.ttf'']"

definition bs2 :: string where
  "bs2 = [CHR 0x5C, CHR 0x5C]"

definition windows_candidates :: "string list" where
  "windows_candidates =
     map (\<lambda>f. ''C:'' @ bs2 @ ''Windows'' @ bs2 @ ''Fonts'' @ bs2 @ f)
       [''NotoNaskhArabic-Regular.ttf'', ''arial.ttf'', ''tahoma.ttf'', ''times.ttf'',
        ''segoeui.ttf'', ''TraditionalArabic.ttf'']"

definition linux_candidates :: "string list" where
  "linux_candidates =
     [''/usr/share/fonts/truetype/noto/NotoNaskhArabic-Regular.ttf'',
      ''/usr/share/fonts/opentype/noto/NotoNaskhArabic-Regular.ttf'',
      ''/usr/share/fonts/truetype/dejavu/DejaVuSans.ttf'',
      ''/usr/share/fonts/truetype/ttf-dejavu/DejaVuSans.ttf'',
      ''/usr/share/fonts/truetype/freefont/FreeSans.ttf'']"

definition mac_candidates :: "string list" where
  "mac_candidates =
     [''/Library/Fonts/Arial Unicode.ttf'',
      ''/Library/Fonts/Arial Unicode MS.ttf'',
      ''/Library/Fonts/Tahoma.ttf'',
      ''/Library/Fonts/DejaVuSans.ttf'']"

definition candidates :: "string \<Rightarrow> string list" where
  "candidates base = local_fonts base @ windows_candidates @ linux_candidates @ mac_candidates"

text \<open>The loop over the candidates: the first path that exists and loads is registered
  under the name \<^verbatim>\<open>ArabicFont\<close>; a path whose test or whose loading raises is skipped.\<close>

fun register_loop :: "env \<Rightarrow> font_state \<Rightarrow> string list \<Rightarrow> string \<times> font_state" where
  "register_loop env st [] = (''Helvetica'', st)"
| "register_loop env st (p # ps) =
     (case path_exists env p of
        Inl e \<Rightarrow> register_loop env st ps
      | Inr False \<Rightarrow> register_loop env st ps
      | Inr True \<Rightarrow>
          (case load_font env p of
             Some e \<Rightarrow> register_loop env st ps
           | None \<Rightarrow> (''ArabicFont'', st\<lparr>registered := (registered st)(''ArabicFont'' \<mapsto> p)\<rparr>)))"

definition register_arabic_font :: "env \<Rightarrow> font_state \<Rightarrow> string \<times> font_state" where
  "register_arabic_font env st =
     (if registered st ''ArabicFont'' \<noteq> None then (''ArabicFont'', st)
      else
        let base = module_dir env;
            st1 = st\<lparr>TTFSearchPath := insert (path_join base ''fonts'') (TTFSearchPath st)\<rparr>
        in register_loop env st1 (candidates base))"

text \<open>\<^verbatim>\<open>_shape_arabic\<close>: the import of the shaping packages may fail, and so may the
  shaping itself; either way the text comes back unchanged.\<close>

definition shape_arabic :: "env \<Rightarrow> string \<Rightarrow> string" where
  "shape_arabic env text =
     (case shaper env of
        None \<Rightarrow> text
      | Some shape \<Rightarrow>
          if text = [] then text
          else (case shape text of Inl e \<Rightarrow> text | Inr s \<Rightarrow> s))"

section \<open>Translation tables\<close>

definition SKILL_TRANSLATIONS_AR_items :: "(string \<times> string) list" where
  "SKILL_TRANSLATIONS_AR_items =
    [(''Ball control'',
      [CHR 0xD8, CHR 0xA7, CHR 0xD9, CHR 0x84, CHR 0xD8, CHR 0xAA, CHR 0xD8, CHR 0xAD, CHR 0xD9,
      CHR 0x83, CHR 0xD9, CHR 0x85] @ '' '' @ [CHR 0xD9, CHR 0x81, CHR 0xD9, CHR 0x8A] @ '' '' @
      [CHR 0xD8, CHR 0xA7, CHR 0xD9, CHR 0x84, CHR 0xD9, CHR 0x83, CHR 0xD8, CHR 0xB1, CHR 0xD8,
      CHR 0xA9]),
     (''Passing'',
      [CHR 0xD8, CHR 0xA7, CHR 0xD9, CHR 0x84, CHR 0xD8, CHR 0xAA, CHR 0xD9, CHR 0x85, CHR 0xD8,
      CHR 0xB1, CHR 0xD9, CHR 0x8A, CHR 0xD8, CHR 0xB1]),
     (''Dribbling'',
      [CHR 0xD8, CHR 0xA7, CHR 0xD9, CHR 0x84, CHR 0xD9, CHR 0x85, CHR 0xD8, CHR 0xB1, CHR 0xD8,
      CHR 0xA7, CHR 0xD9, CHR 0x88, CHR 0xD8, CHR 0xBA, CHR 0xD8, CHR 0xA9]),
     (''Shooting'',
      [CHR 0xD8, CHR 0xA7, CHR 0xD9, CHR 0x84, CHR 0xD8, CHR 0xAA, CHR 0xD8, CHR 0xB3, CHR 0xD8,
      CHR 0xAF, CHR 0xD9, CHR 0x8A, CHR 0xD8, CHR 0xAF]),
     (''Using both feet'',
      [CHR 0xD8, CHR 0xA7, CHR 0xD8, CHR 0xB3, CHR 0xD8, CHR 0xAA, CHR 0xD8, CHR 0xAE, CHR 0xD8,
      CHR 0xAF, CHR 0xD8, CHR 0xA7, CHR 0xD9, CHR 0x85] @ '' '' @ [CHR 0xD8, CHR 0xA7, CHR 0xD9,
      CHR 0x84, CHR 0xD9, CHR 0x82, CHR 0xD8, CHR 0xAF, CHR 0xD9, CHR 0x85, CHR 0xD9, CHR 0x8A,
      CHR 0xD9, CHR 0x86]),
     (''Speed'',
      [CHR 0xD8, CHR 0xA7, CHR 0xD9, CHR 0x84, CHR 0xD8, CHR 0xB3, CHR 0xD8, CHR 0xB1, CHR 0xD8,
      CHR 0xB9, CHR 0xD8, CHR 0xA9]),
     (''Agility'',
      [CHR 0xD8, CHR 0xA7, CHR 0xD9, CHR 0x84, CHR 0xD8, CHR 0xB1, CHR 0xD8, CHR 0xB4, CHR 0xD8,
      CHR 0xA7, CHR 0xD9, CHR 0x82, CHR 0xD8, CHR 0xA9]),
     (''Endurance'',
      [CHR 0xD8, CHR 0xA7, CHR 0xD9, CHR 0x84, CHR 0xD8, CHR 0xAA, CHR 0xD8, CHR 0xAD, CHR 0xD9,
      CHR 0x85, CHR 0xD9, CHR 0x84]),
     (''Strength'',
      [CHR 0xD8, CHR 0xA7, CHR 0xD9, CHR 0x84, CHR 0xD9, CHR 0x82, CHR 0xD9, CHR 0x88, CHR 0xD8,
      CHR 0xA9]),
     (''Positioning'',
      [CHR 0xD8, CHR 0xA7, CHR 0xD9, CHR 0x84, CHR 0xD8, CHR 0xAA, CHR 0xD9, CHR 0x85, CHR 0xD8,
      CHR 0xB1, CHR 0xD9, CHR 0x83, CHR 0xD8, CHR 0xB2]),
     (''Decision making'',
      [CHR 0xD8, CHR 0xA7, CHR 0xD8, CHR 0xAA, CHR 0xD8, CHR 0xAE, CHR 0xD8, CHR 0xA7, CHR 0xD8,
      CHR 0xB0] @ '' '' @ [CHR 0xD8, CHR 0xA7, CHR 0xD9, CHR 0x84, CHR 0xD9, CHR 0x82, CHR 0xD8,
      CHR 0xB1, CHR 0xD8, CHR 0xA7, CHR 0xD8, CHR 0xB1]),
     (''Game awareness'',
      [CHR 0xD8, CHR 0xA7, CHR 0xD9, CHR 0x84, CHR 0xD9, CHR 0x88, CHR 0xD8, CHR 0xB9, CHR 0xD9,
      CHR 0x8A] @ '' '' @ [CHR 0xD8, CHR 0xA8, CHR 0xD8, CHR 0xA7, CHR 0xD9, CHR 0x84, CHR 0xD9,
      CHR 0x85, CHR 0xD8, CHR 0xA8, CHR 0xD8, CHR 0xA7, CHR 0xD8, CHR 0xB1, CHR 0xD8, CHR 0xA7,
      CHR 0xD8, CHR 0xA9]),
     (''Teamwork'',
      [CHR 0xD8, CHR 0xA7, CHR 0xD9, CHR 0x84, CHR 0xD8, CHR 0xB9, CHR 0xD9, CHR 0x85, CHR 0xD9,
      CHR 0x84] @ '' '' @ [CHR 0xD8, CHR 0xA7, CHR 0xD9, CHR 0x84, CHR 0xD8, CHR 0xAC, CHR 0xD9,
      CHR 0x85, CHR 0xD8, CHR 0xA7, CHR 0xD8, CHR 0xB9, CHR 0xD9, CHR 0x8A]),
     (''Respect'',
      [CHR 0xD8, CHR 0xA7, CHR 0xD9, CHR 0x84, CHR 0xD8, CHR 0xA7, CHR 0xD8, CHR 0xAD, CHR 0xD8,
      CHR 0xAA, CHR 0xD8, CHR 0xB1, CHR 0xD8, CHR 0xA7, CHR 0xD9, CHR 0x85]),
     (''Sportsmanship'',
      [CHR 0xD8, CHR 0xA7, CHR 0xD9, CHR 0x84, CHR 0xD8, CHR 0xB1, CHR 0xD9, CHR 0x88, CHR 0xD8,
      CHR 0xAD] @ '' '' @ [CHR 0xD8, CHR 0xA7, CHR 0xD9, CHR 0x84, CHR 0xD8, CHR 0xB1, CHR 0xD9,
      CHR 0x8A, CHR 0xD8, CHR 0xA7, CHR 0xD8, CHR 0xB6, CHR 0xD9, CHR 0x8A, CHR 0xD8, CHR 0xA9]),
     (''Confidence'',
      [CHR 0xD8, CHR 0xA7, CHR 0xD9, CHR 0x84, CHR 0xD8, CHR 0xAB, CHR 0xD9, CHR 0x82, CHR 0xD8,
      CHR 0xA9]),
     (''Leadership'',
      [CHR 0xD8, CHR 0xA7, CHR 0xD9, CHR 0x84, CHR 0xD9, CHR 0x82, CHR 0xD9, CHR 0x8A, CHR 0xD8,
      CHR 0xA7, CHR 0xD8, CHR 0xAF, CHR 0xD8, CHR 0xA9]),
     (''Attendance and punctuality'',
      [CHR 0xD8, CHR 0xA7, CHR 0xD9, CHR 0x84, CHR 0xD8, CHR 0xA7, CHR 0xD9, CHR 0x86, CHR 0xD8,
      CHR 0xB6, CHR 0xD8, CHR 0xA8, CHR 0xD8, CHR 0xA7, CHR 0xD8, CHR 0xB7] @ '' '' @ [CHR 0xD9,
      CHR 0x88, CHR 0xD8, CHR 0xA7, CHR 0xD9, CHR 0x84, CHR 0xD8, CHR 0xA7, CHR 0xD9, CHR 0x84,
      CHR 0xD8, CHR 0xAA, CHR 0xD8, CHR 0xB2, CHR 0xD8, CHR 0xA7, CHR 0xD9, CHR 0x85] @ '' '' @
      [CHR 0xD8, CHR 0xA8, CHR 0xD8, CHR 0xA7, CHR 0xD9, CHR 0x84, CHR 0xD9, CHR 0x85, CHR 0xD9,
      CHR 0x88, CHR 0xD8, CHR 0xA7, CHR 0xD8, CHR 0xB9, CHR 0xD9, CHR 0x8A, CHR 0xD8, CHR 0xAF])]"

definition SECTION_TRANSLATIONS_AR_items :: "(string \<times> string) list" where
  "SECTION_TRANSLATIONS_AR_items =
    [(''Technical Skills'',
      [CHR 0xD9, CHR 0x85, CHR 0xD9, CHR 0x87, CHR 0xD8, CHR 0xA7, CHR 0xD8, CHR 0xB1, CHR 0xD8,
      CHR 0xA7, CHR 0xD8, CHR 0xAA] @ '' '' @ [CHR 0xD8, CHR 0xAA, CHR 0xD9, CHR 0x82, CHR 0xD9,
      CHR 0x86, CHR 0xD9, CHR 0x8A, CHR 0xD8, CHR 0xA9]),
     (''Physical Abilities'',
      [CHR 0xD8, CHR 0xA7, CHR 0xD9, CHR 0x84, CHR 0xD9, CHR 0x82, CHR 0xD8, CHR 0xAF, CHR 0xD8,
      CHR 0xB1, CHR 0xD8, CHR 0xA7, CHR 0xD8, CHR 0xAA] @ '' '' @ [CHR 0xD8, CHR 0xA7, CHR 0xD9,
      CHR 0x84, CHR 0xD8, CHR 0xA8, CHR 0xD8, CHR 0xAF, CHR 0xD9, CHR 0x86, CHR 0xD9, CHR 0x8A,
      CHR 0xD8, CHR 0xA9]),
     (''Technical Understanding'',
      [CHR 0xD8, CHR 0xA7, CHR 0xD9, CHR 0x84, CHR 0xD9, CHR 0x81, CHR 0xD9, CHR 0x87, CHR 0xD9,
      CHR 0x85] @ '' '' @ [CHR 0xD8, CHR 0xA7, CHR 0xD9, CHR 0x84, CHR 0xD9, CHR 0x81, CHR 0xD9,
      CHR 0x86, CHR 0xD9, CHR 0x8A]),
     (''Psychological and Social'',
      [CHR 0xD8, CHR 0xA7, CHR 0xD9, CHR 0x84, CHR 0xD8, CHR 0xAC, CHR 0xD9, CHR 0x88, CHR 0xD8,
      CHR 0xA7, CHR 0xD9, CHR 0x86, CHR 0xD8, CHR 0xA8] @ '' '' @ [CHR 0xD8, CHR 0xA7, CHR 0xD9,
      CHR 0x84, CHR 0xD9, CHR 0x86, CHR 0xD9, CHR 0x81, CHR 0xD8, CHR 0xB3, CHR 0xD9, CHR 0x8A,
      CHR 0xD8, CHR 0xA9] @ '' '' @ [CHR 0xD9, CHR 0x88, CHR 0xD8, CHR 0xA7, CHR 0xD9, CHR 0x84,
      CHR 0xD8, CHR 0xA7, CHR 0xD8, CHR 0xAC, CHR 0xD8, CHR 0xAA, CHR 0xD9, CHR 0x85, CHR 0xD8,
      CHR 0xA7, CHR 0xD8, CHR 0xB9, CHR 0xD9, CHR 0x8A, CHR 0xD8, CHR 0xA9]),
     (''Average Level'',
      [CHR 0xD8, CHR 0xA7, CHR 0xD9, CHR 0x84, CHR 0xD9, CHR 0x85, CHR 0xD8, CHR 0xB3, CHR 0xD8,
      CHR 0xAA, CHR 0xD9, CHR 0x88, CHR 0xD9, CHR 0x89] @ '' '' @ [CHR 0xD8, CHR 0xA7, CHR 0xD9,
      CHR 0x84, CHR 0xD8, CHR 0xB9, CHR 0xD8, CHR 0xA7, CHR 0xD9, CHR 0x85])]"

definition RATING_TRANSLATIONS_AR_items :: "(string \<times> string) list" where
  "RATING_TRANSLATIONS_AR_items =
    [(''Bad'',
      [CHR 0xD8, CHR 0xB3, CHR 0xD9, CHR 0x8A, CHR 0xD8, CHR 0xA6]),
     (''Not bad'',
      [CHR 0xD9, CHR 0x84, CHR 0xD9, CHR 0x8A, CHR 0xD8, CHR 0xB3] @ '' '' @ [CHR 0xD8, CHR 0xB3,
      CHR 0xD9, CHR 0x8A, CHR 0xD8, CHR 0xA6, CHR 0xD9, CHR 0x8B, CHR 0xD8, CHR 0xA7]),
     (''Good'',
      [CHR 0xD8, CHR 0xAC, CHR 0xD9, CHR 0x8A, CHR 0xD8, CHR 0xAF]),
     (''Very Good'',
      [CHR 0xD8, CHR 0xAC, CHR 0xD9, CHR 0x8A, CHR 0xD8, CHR 0xAF] @ '' '' @ [CHR 0xD8, CHR 0xAC,
      CHR 0xD8, CHR 0xAF, CHR 0xD9, CHR 0x8B, CHR 0xD8, CHR 0xA7]),
     (''Excellent'',
      [CHR 0xD9, CHR 0x85, CHR 0xD9, CHR 0x85, CHR 0xD8, CHR 0xAA, CHR 0xD8, CHR 0xA7, CHR 0xD8,
      CHR 0xB2])]"

definition SKILL_TRANSLATIONS_AR :: "string \<rightharpoonup> string" where
  "SKILL_TRANSLATIONS_AR = map_of SKILL_TRANSLATIONS_AR_items"

definition SECTION_TRANSLATIONS_AR :: "string \<rightharpoonup> string" where
  "SECTION_TRANSLATIONS_AR = map_of SECTION_TRANSLATIONS_AR_items"

definition RATING_TRANSLATIONS_AR :: "string \<rightharpoonup> string" where
  "RATING_TRANSLATIONS_AR = map_of RATING_TRANSLATIONS_AR_items"

text \<open>\<^verbatim>\<open>if tr\<close> on the result of a dictionary \<^verbatim>\<open>get\<close>: true for a string that is
  present and not empty.\<close>

fun truthy :: "string option \<Rightarrow> bool" where
  "truthy None = False"
| "truthy (Some s) = (s \<noteq> [])"

definition with_translation :: "string \<Rightarrow> string" where
  "with_translation label =
     (let tr = SKILL_TRANSLATIONS_AR label in
      if truthy tr then label @ '' ('' @ the tr @ '')'' else label)"

definition with_translation_text :: "env \<Rightarrow> string \<Rightarrow> string" where
  "with_translation_text env label =
     (let tr = SKILL_TRANSLATIONS_AR label in
      if truthy tr then label @ '' ('' @ shape_arabic env (the tr) @ '')'' else label)"

text \<open>The pieces of inline markup the module writes around a text.\<close>

definition font_open :: "string \<Rightarrow> string" where
  \<open>font_open name = ''<font name="'' @ name @ ''">''\<close>

definition font_close :: string where
  "font_close = ''</font>''"

text \<open>\<^verbatim>\<open>arabic_font_name or _register_arabic_font()\<close>: the registration runs only when no
  font name was passed.\<close>

definition or_register :: "env \<Rightarrow> font_state \<Rightarrow> string option \<Rightarrow> string \<times> font_state" where
  "or_register env st arabic_font_name =
     (if truthy arabic_font_name then (the arabic_font_name, st) else register_arabic_font env st)"

definition with_translation_html ::
  "env \<Rightarrow> font_state \<Rightarrow> string \<Rightarrow> string \<Rightarrow> string option \<Rightarrow> string \<times> font_state" where
  "with_translation_html env st label english_font_name arabic_font_name =
     (let (ar_font, st1) = or_register env st arabic_font_name;
          tr = SKILL_TRANSLATIONS_AR label
      in if truthy tr then
           (let shaped = shape_arabic env (the tr) in
            (font_open english_font_name @ label @ font_close @ '' - '' @
             font_open ar_font @ shaped @ font_close, st1))
         else (font_open english_font_name @ label @ font_close, st1))"

definition with_section_title_text :: "env \<Rightarrow> string \<Rightarrow> string" where
  "with_section_title_text env title =
     (let tr = SECTION_TRANSLATIONS_AR title in
      if truthy tr then title @ '' ('' @ shape_arabic env (the tr) @ '')'' else title)"

definition with_section_title_html ::
  "env \<Rightarrow> font_state \<Rightarrow> string \<Rightarrow> string \<Rightarrow> string option \<Rightarrow> string \<times> font_state" where
  "with_section_title_html env st title english_font_name arabic_font_name =
     (let (ar_font, st1) = or_register env st arabic_font_name;
          tr = SECTION_TRANSLATIONS_AR title
      in if truthy tr then
           (let shaped = shape_arabic env (the tr) in
            (font_open english_font_name @ title @ font_close @ '' / '' @
             font_open ar_font @ shaped @ font_close, st1))
         else (font_open english_font_name @ title @ font_close, st1))"

text \<open>In \<^verbatim>\<open>rating_bilingual_html\<close> the font is registered inside the formatted string,
  so only on the branch that has a translation.\<close>

definition rating_bilingual_html :: "env \<Rightarrow> font_state \<Rightarrow> pyvalue \<Rightarrow> string \<times> font_state" where
  "rating_bilingual_html env st v =
     (let label = rating_label v;
          ar = RATING_TRANSLATIONS_AR label
      in if truthy ar then
           (let (ar_font, st1) = register_arabic_font env st in
            (font_open ''Helvetica'' @ label @ font_close @ '' / '' @
             font_open ar_font @ shape_arabic env (the ar) @ font_close, st1))
         else (font_open ''Helvetica'' @ label @ font_close, st))"

text \<open>The markup of an unknown rating.\<close>

definition unknown_html :: string where
  "unknown_html = font_open ''Helvetica'' @ unknown_marker @ font_close"

definition rating_bilingual_html_from_average ::
  "env \<Rightarrow> font_state \<Rightarrow> pyfloat option \<Rightarrow> string \<times> font_state" where
  "rating_bilingual_html_from_average env st avg =
     rating_bilingual_html env st (VStr (rating_label_from_average avg))"

section \<open>The ORM objects the reports read\<close>

text \<open>A photo field: whether a file is attached (the truth value of the field), what
  \<^verbatim>\<open>open\<close>, \<^verbatim>\<open>read\<close> and \<^verbatim>\<open>close\<close> do, the stored name, and what reading the
  properties \<^verbatim>\<open>path\<close> and \<^verbatim>\<open>url\<close> does: a value (possibly \<^verbatim>\<open>None\<close>) or the
  exception the property raises. A storage that has no local paths raises
  \<^verbatim>\<open>NotImplementedError\<close> from \<^verbatim>\<open>path\<close>.\<close>

record photo_field =
  field_set :: bool
  field_open :: "exn option"
  field_read :: "exn + bytes"
  field_close :: "exn option"
  field_path :: "exn + string option"
  field_name :: string
  field_url :: "exn + string option"

record evaluation =
  evaluated_at :: int
  updated_at :: int
  ball_control :: pyvalue
  passing :: pyvalue
  dribbling :: pyvalue
  shooting :: pyvalue
  using_both_feet :: pyvalue
  speed :: pyvalue
  agility :: pyvalue
  endurance :: pyvalue
  strength :: pyvalue
  positioning :: pyvalue
  decision_making :: pyvalue
  game_awareness :: pyvalue
  teamwork :: pyvalue
  respect :: pyvalue
  sportsmanship :: pyvalue
  confidence :: pyvalue
  leadership :: pyvalue
  attendance_and_punctuality :: pyvalue
  average_rating :: "pyfloat option"
  coach :: string
  ev_notes :: "string option"

text \<open>A player. \<open>evaluations\<close> is the related manager: \<open>None\<close> when the attribute is
  missing, otherwise the rows of the player or the exception the query raises.\<close>

record player =
  name :: string
  group_name :: string
  age :: pyvalue
  phone :: "string option"
  photo :: photo_field
  evaluations :: "(exn + evaluation list) option"

record group =
  gname :: string
  gcoach :: string
  players :: "player list"

section \<open>Exceptions as values\<close>

definition bind :: "exn + 'a \<Rightarrow> ('a \<Rightarrow> exn + 'b) \<Rightarrow> exn + 'b" where
  "bind m f = (case m of Inl e \<Rightarrow> Inl e | Inr x \<Rightarrow> f x)"

text \<open>\<^verbatim>\<open>try: ... except Exception: return d\<close>.\<close>

definition try_except :: "exn + 'a \<Rightarrow> 'a \<Rightarrow> exn + 'a" where
  "try_except m d = (case m of Inl e \<Rightarrow> Inr d | Inr x \<Rightarrow> Inr x)"

section \<open>Image helpers\<close>

definition new_image :: "env \<Rightarrow> image_source \<Rightarrow> nat \<Rightarrow> nat \<Rightarrow> exn + image option" where
  "new_image env s w h =
     (case image_ctor env s of
        Some e \<Rightarrow> Inl e
      | None \<Rightarrow> Inr (Some \<lparr>img_src = s, img_width = w, img_height = h, hAlign = None\<rparr>))"

text \<open>\<^verbatim>\<open>_safe_image\<close> makes a path of its argument and works with the text of that path.\<close>

definition safe_image :: "env \<Rightarrow> string \<Rightarrow> nat \<Rightarrow> nat \<Rightarrow> exn + image option" where
  "safe_image env path w h =
     try_except
       (let p = path_str path in
        bind (path_exists env p) (\<lambda>ex.
          if \<not> ex then Inr None
          else bind (path_is_file env p) (\<lambda>isf.
            if \<not> isf then Inr None
            else (case image_reader_file env p of
                    Some e \<Rightarrow> Inl e
                  | None \<Rightarrow> new_image env (FromFile p) w h))))
       None"

definition url_image :: "env \<Rightarrow> string \<Rightarrow> nat \<Rightarrow> nat \<Rightarrow> exn + image option" where
  "url_image env url w h =
     try_except
       (if url = [] \<or> \<not> (startswith url ''http://'' \<or> startswith url ''https://'') then Inr None
        else bind (urlopen_read env url) (\<lambda>data.
          (case image_reader_bytes env data of
             Some e \<Rightarrow> Inl e
           | None \<Rightarrow> new_image env (FromReader data) w h)))
       None"

text \<open>The block \<^verbatim>\<open>field.open("rb"); try: data = field.read() finally: field.close()\<close>:
  \<^verbatim>\<open>close\<close> runs whether \<^verbatim>\<open>read\<close> raised or not, and an exception of \<^verbatim>\<open>close\<close>
  replaces the one of \<^verbatim>\<open>read\<close>.\<close>

definition field_bytes :: "photo_field \<Rightarrow> exn + bytes" where
  "field_bytes field =
     (case field_open field of
        Some e \<Rightarrow> Inl e
      | None \<Rightarrow>
          (case field_read field of
             Inl e \<Rightarrow> (case field_close field of Some e2 \<Rightarrow> Inl e2 | None \<Rightarrow> Inl e)
           | Inr data \<Rightarrow> (case field_close field of Some e2 \<Rightarrow> Inl e2 | None \<Rightarrow> Inr data)))"

definition image_from_field :: "env \<Rightarrow> photo_field \<Rightarrow> nat \<Rightarrow> nat \<Rightarrow> exn + image option" where
  "image_from_field env field w h =
     try_except
       (bind (field_bytes field) (\<lambda>data.
          (case image_reader_bytes env data of
             Some e \<Rightarrow> Inl e
           | None \<Rightarrow> new_image env (FromReader data) w h)))
       None"

text \<open>An image is embeddable when the decoder accepted its source and the flowable could
  be made from it; for a file, the path was also found to be an existing regular file.\<close>

definition embeddable :: "env \<Rightarrow> image \<Rightarrow> bool" where
  "embeddable env img =
     (image_ctor env (img_src img) = None \<and>
      (case img_src img of
         FromFile p \<Rightarrow>
           path_exists env p = Inr True \<and> path_is_file env p = Inr True \<and>
           image_reader_file env p = None
       | FromReader data \<Rightarrow> image_reader_bytes env data = None))"

text \<open>\<^verbatim>\<open>img.hAlign = "LEFT"\<close>.\<close>

definition align_left :: "image \<Rightarrow> image" where
  "align_left img = img\<lparr>hAlign := Some ''LEFT''\<rparr>"

text \<open>The places \<^verbatim>\<open>_logo_image\<close> looks at. \<open>module_dir\<close> is the resolved directory of the
  module file and \<open>BASE_DIR\<close> the resolved setting of that name.\<close>

definition logo_candidates :: "env \<Rightarrow> string list" where
  "logo_candidates env =
     (let base = module_dir env;
          backend_root = path_parent base;
          base_dir = BASE_DIR env
      in [path_join base ''logo.png'',
          path_join (path_join base ''fonts'') ''logo.png'',
          path_join (path_join backend_root ''core'') ''logo.png'',
          path_join (path_join (path_join backend_root ''core'') ''fonts'') ''logo.png'',
          path_join (path_join (path_join (path_parent base_dir) ''football-academy-frontend'')
            ''public'') ''logo.png'',
          path_join (path_join (path_join (path_parent (path_parent base_dir))
            ''football-academy-frontend'') ''public'') ''logo.png''])"

text \<open>The loop of \<^verbatim>\<open>_logo_image\<close>: the first candidate that gives an image is returned,
  aligned left; \<open>Inr None\<close> is the loop running to its end.\<close>

fun logo_loop :: "env \<Rightarrow> string list \<Rightarrow> nat \<Rightarrow> nat \<Rightarrow> exn + image option" where
  "logo_loop env [] w h = Inr None"
| "logo_loop env (p # ps) w h =
     bind (safe_image env p w h) (\<lambda>img.
       case img of Some i \<Rightarrow> Inr (Some (align_left i)) | None \<Rightarrow> logo_loop env ps w h)"

definition logo_image :: "env \<Rightarrow> nat \<Rightarrow> nat \<Rightarrow> exn + image option" where
  "logo_image env w h =
     bind (try_except (logo_loop env (logo_candidates env) w h) None) (\<lambda>found.
       case found of
         Some i \<Rightarrow> Inr (Some i)
       | None \<Rightarrow>
           try_except
             (bind (url_image env (LOGO_URL env) w h) (\<lambda>img.
                Inr (case img of Some i \<Rightarrow> Some (align_left i) | None \<Rightarrow> None)))
             None)"

section \<open>Resolving a player's photo\<close>

text \<open>The sources a photo can come from, in the order the reports try them. The block
  below stands twice in the module, in \<^verbatim>\<open>build_group_report\<close> (50 by 50) and in
  \<^verbatim>\<open>build_player_report\<close> (100 by 100); next to the image it returns the list of the
  sources it has tried, oldest first.\<close>

datatype source = Storage | LocalFile string | Http string

definition lstrip_slash :: "string \<Rightarrow> string" where
  "lstrip_slash s = dropWhile (\<lambda>c. c = CHR ''/'') s"

text \<open>\<^verbatim>\<open>getattr(obj, name, None)\<close>: only \<^verbatim>\<open>AttributeError\<close> is turned into the default,
  any other exception of the property goes on to the caller.\<close>

definition getattr_none :: "exn + 'a option \<Rightarrow> exn + 'a option" where
  "getattr_none m =
     (case m of
        Inl e \<Rightarrow> if e = AttributeError then Inr None else Inl e
      | Inr v \<Rightarrow> Inr v)"

definition photo_image ::
  "env \<Rightarrow> photo_field \<Rightarrow> nat \<Rightarrow> nat \<Rightarrow> exn + (image option \<times> source list)" where
  "photo_image env ph w h =
     (if \<not> field_set ph then Inr (None, [])
      else
        bind (image_from_field env ph w h) (\<lambda>img1.
          if img1 \<noteq> None then Inr (img1, [Storage])
          else
            bind (getattr_none (field_path ph)) (\<lambda>path_attr.
              (let img_path = (if truthy path_attr then the path_attr
                               else path_join (MEDIA_ROOT env) (field_name ph))
               in bind (safe_image env img_path w h) (\<lambda>img2.
                    if img2 \<noteq> None then Inr (img2, [Storage, LocalFile img_path])
                    else
                      bind (getattr_none (field_url ph)) (\<lambda>url.
                        (let base = PUBLIC_BASE_URL env in
                         if truthy url \<and> base \<noteq> [] \<and> startswith (the url) ''/'' then
                           (let full = urljoin env (base @ ''/'') (lstrip_slash (the url)) in
                            bind (url_image env full w h) (\<lambda>img3.
                              Inr (img3, [Storage, LocalFile img_path, Http full])))
                         else Inr (None, [Storage, LocalFile img_path]))))))))"

section \<open>The latest evaluation\<close>

text \<open>\<^verbatim>\<open>order_by("-evaluated_at", "-updated_at").first()\<close> on the rows of a player: the row
  with the greatest pair of time stamps, \<open>None\<close> when there is no row. Among rows with
  equal time stamps the database decides; here the earliest in the list is kept.\<close>

definition newer :: "evaluation \<Rightarrow> evaluation \<Rightarrow> bool" where
  "newer a b =
     (evaluated_at b < evaluated_at a \<or>
      (evaluated_at a = evaluated_at b \<and> updated_at b < updated_at a))"

fun first_desc :: "evaluation list \<Rightarrow> evaluation option" where
  "first_desc [] = None"
| "first_desc (e # es) =
     (case first_desc es of
        None \<Rightarrow> Some e
      | Some m \<Rightarrow> if newer m e then Some m else Some e)"

definition latest_evaluation :: "player \<Rightarrow> exn + evaluation option" where
  "latest_evaluation p =
     try_except
       (case evaluations p of
          None \<Rightarrow> Inr None
        | Some query \<Rightarrow> bind query (\<lambda>rows. Inr (first_desc rows)))
       None"

section \<open>Building the documents\<close>

definition A4 :: doc_template where
  "A4 = \<lparr>pagesize = ''A4'', leftMargin = None, rightMargin = None, topMargin = None,
          bottomMargin = None\<rparr>"

text \<open>\<^verbatim>\<open>doc.build(story)\<close> for a document bound to a buffer: the bytes are appended to
  what the buffer holds; the first component is the exception raised, if any.\<close>

definition doc_build_into ::
  "env \<Rightarrow> doc_template \<Rightarrow> bytes \<Rightarrow> flowable list \<Rightarrow> exn option \<times> bytes" where
  "doc_build_into env tpl buffer story =
     (case doc_build env tpl story of
        Built b \<Rightarrow> (None, buffer @ b)
      | Failed e part \<Rightarrow> (Some e, buffer @ part))"

text \<open>\<^verbatim>\<open>img if img else ""\<close>.\<close>

definition image_cell :: "image option \<Rightarrow> cell" where
  "image_cell img = (case img of Some i \<Rightarrow> CImage i | None \<Rightarrow> CText [])"

definition all_cells :: "(int \<times> int) \<times> (int \<times> int)" where
  "all_cells = ((0, 0), (-1, -1))"

definition cmd :: "string \<Rightarrow> (int \<times> int) \<times> (int \<times> int) \<Rightarrow> string list \<Rightarrow> style_cmd" where
  "cmd c cells args = (c, fst cells, snd cells, args)"

text \<open>\<^verbatim>\<open>Paragraph(text, style)\<close>, as a flowable of the story and as a table cell.\<close>

definition mk_paragraph :: "env \<Rightarrow> string \<Rightarrow> style \<Rightarrow> exn + flowable" where
  "mk_paragraph env t sty =
     (case paragraph_ctor env t sty of Some e \<Rightarrow> Inl e | None \<Rightarrow> Inr (Paragraph t sty))"

definition mk_cell :: "env \<Rightarrow> string \<Rightarrow> style \<Rightarrow> exn + cell" where
  "mk_cell env t sty =
     (case paragraph_ctor env t sty of Some e \<Rightarrow> Inl e | None \<Rightarrow> Inr (CPara t sty))"

subsection \<open>The group report\<close>

definition group_header_style :: "style_cmd list" where
  "group_header_style =
     [cmd ''VALIGN'' all_cells [''TOP''],
      cmd ''LEFTPADDING'' all_cells [''0''],
      cmd ''RIGHTPADDING'' all_cells [''0''],
      cmd ''TOPPADDING'' all_cells [''0''],
      cmd ''BOTTOMPADDING'' all_cells [''0'']]"

definition summary_style :: "style_cmd list" where
  "summary_style =
     [cmd ''BACKGROUND'' ((0, 0), (-1, 0)) [''lightgrey''],
      cmd ''GRID'' all_cells [''0.5'', ''grey''],
      cmd ''VALIGN'' all_cells [''MIDDLE'']]"

definition summary_header :: "cell list" where
  "summary_header = [CText ''Photo'', CText ''Player'', CText ''Phone'', CText ''Avg'']"

text \<open>One pass of the loop over the players: the row of a player.\<close>

definition group_row :: "env \<Rightarrow> player \<Rightarrow> exn + cell list" where
  "group_row env p =
     bind (photo_image env (photo p) 50 50) (\<lambda>(img, tried).
     bind (latest_evaluation p) (\<lambda>ev.
       Inr [image_cell img, CText (name p),
            (case phone p of None \<Rightarrow> CNone | Some s \<Rightarrow> CText s),
            CText (case ev of
                     Some e \<Rightarrow> rating_label_from_average (average_rating e)
                   | None \<Rightarrow> ''-'')]))"

fun group_rows :: "env \<Rightarrow> player list \<Rightarrow> exn + cell list list" where
  "group_rows env [] = Inr []"
| "group_rows env (p # ps) =
     bind (group_row env p) (\<lambda>row.
     bind (group_rows env ps) (\<lambda>rows. Inr (row # rows)))"

definition group_data :: "env \<Rightarrow> group \<Rightarrow> exn + cell list list" where
  "group_data env g = bind (group_rows env (players g)) (\<lambda>rows. Inr (summary_header # rows))"

definition group_story :: "env \<Rightarrow> group \<Rightarrow> exn + flowable list" where
  "group_story env g =
     bind (logo_image env 60 60) (\<lambda>logo.
     bind (mk_cell env (''Group Report: '' @ gname g) (styles env ''Title'')) (\<lambda>title_para.
     bind (mk_cell env (''Coach: '' @ gcoach g) (styles env ''Heading2'')) (\<lambda>coach_para.
     bind (group_data env g) (\<lambda>data.
       Inr [Table [[image_cell logo, title_para], [CText [], coach_para]]
              [Some 70, None] 0 group_header_style,
            Spacer 1 12,
            Table data [] 1 summary_style]))))"

definition group_fallback_story :: "env \<Rightarrow> group \<Rightarrow> exn + flowable list" where
  "group_fallback_story env g =
     bind (mk_paragraph env ''Group Report'' (styles env ''Title'')) (\<lambda>title.
     bind (mk_paragraph env (''Group: '' @ gname g) (styles env ''Normal'')) (\<lambda>line.
       Inr [title, Spacer 1 12, line]))"

text \<open>\<^verbatim>\<open>build_group_report\<close>. On \<^verbatim>\<open>OSError\<close> the fallback is built into a buffer of its
  own; any other exception, and any exception raised in the handler, reaches the caller.\<close>

definition build_group_report :: "env \<Rightarrow> group \<Rightarrow> exn + bytes" where
  "build_group_report env g =
     bind (group_story env g) (\<lambda>story.
       case doc_build_into env A4 [] story of
         (None, buffer) \<Rightarrow> Inr buffer
       | (Some e, buffer) \<Rightarrow>
           if e = OSError then
             bind (group_fallback_story env g) (\<lambda>fallback_story.
               case doc_build_into env A4 [] fallback_story of
                 (None, fallback_buffer) \<Rightarrow> Inr fallback_buffer
               | (Some e2, fallback_buffer) \<Rightarrow> Inl e2)
           else Inl e)"

subsection \<open>The player report\<close>

definition player_template :: doc_template where
  "player_template =
     \<lparr>pagesize = ''A4'', leftMargin = Some 24, rightMargin = Some 24, topMargin = Some 24,
      bottomMargin = Some 24\<rparr>"

definition TA_RIGHT :: nat where
  "TA_RIGHT = 2"

definition clone :: "style \<Rightarrow> string \<Rightarrow> style" where
  "clone s n = s\<lparr>style_name := n\<rparr>"

definition player_header_style :: "style_cmd list" where
  "player_header_style =
     [cmd ''VALIGN'' all_cells [''TOP''],
      cmd ''ALIGN'' ((2, 0), (2, 0)) [''RIGHT''],
      cmd ''LEFTPADDING'' all_cells [''0''],
      cmd ''RIGHTPADDING'' all_cells [''0''],
      cmd ''TOPPADDING'' all_cells [''0''],
      cmd ''BOTTOMPADDING'' all_cells [''0'']]"

definition rating_table_style :: "style_cmd list" where
  "rating_table_style =
     [cmd ''BACKGROUND'' ((0, 0), (-1, 0)) [''lightgrey''],
      cmd ''GRID'' all_cells [''0.5'', ''grey''],
      cmd ''LEFTPADDING'' all_cells [''3''],
      cmd ''RIGHTPADDING'' all_cells [''3''],
      cmd ''TOPPADDING'' all_cells [''2''],
      cmd ''BOTTOMPADDING'' all_cells [''2''],
      cmd ''VALIGN'' all_cells [''MIDDLE'']]"

text \<open>\<^verbatim>\<open>with_translation_para\<close>; the paragraph it returns is used as a table cell.\<close>

definition with_translation_para ::
  "env \<Rightarrow> font_state \<Rightarrow> string \<Rightarrow> style \<Rightarrow> exn + (cell \<times> font_state)" where
  "with_translation_para env st label sty =
     (let (ar_font, st1) = register_arabic_font env st;
          (html, st2) = with_translation_html env st1 label ''Helvetica'' (Some ar_font)
      in bind (mk_cell env html sty) (\<lambda>c. Inr (c, st2)))"

text \<open>The rows of one rating table, written out one by one in the module: a bilingual
  skill label and the bilingual rating, evaluated left to right.\<close>

fun rating_rows ::
  "env \<Rightarrow> font_state \<Rightarrow> style \<Rightarrow> style \<Rightarrow> (string \<times> pyvalue) list \<Rightarrow>
   exn + (cell list list \<times> font_state)" where
  "rating_rows env st label_style value_style [] = Inr ([], st)"
| "rating_rows env st label_style value_style ((label, v) # rest) =
     bind (with_translation_para env st label label_style) (\<lambda>(c1, st1).
       (let (html, st2) = rating_bilingual_html env st1 v in
        bind (mk_cell env html value_style) (\<lambda>c2.
        bind (rating_rows env st2 label_style value_style rest) (\<lambda>(rows, st3).
          Inr ([c1, c2] # rows, st3)))))"

text \<open>One of the four category blocks: the bilingual section title, the table with its
  header row, and a spacer.\<close>

definition rating_section ::
  "env \<Rightarrow> font_state \<Rightarrow> style \<Rightarrow> style \<Rightarrow> style \<Rightarrow> string \<Rightarrow> string \<Rightarrow> string \<Rightarrow>
   (string \<times> pyvalue) list \<Rightarrow> exn + (flowable list \<times> font_state)" where
  "rating_section env st small_h3 normal_small arabic_label_style arabic_font title first_col items =
     (let (t, st1) = with_section_title_html env st title (fontName small_h3) (Some arabic_font)
      in bind (mk_paragraph env t small_h3) (\<lambda>heading.
         bind (rating_rows env st1 arabic_label_style normal_small items) (\<lambda>(rows, st2).
           Inr ([heading,
                 Table ([CText first_col, CText ''Rating''] # rows) [] 1 rating_table_style,
                 Spacer 1 6], st2))))"

text \<open>The text of the Average Level line: the section title, a colon, and
  \<^verbatim>\<open>rating_bilingual_html_from_average\<close> of the evaluation's average.\<close>

definition average_level_html ::
  "env \<Rightarrow> font_state \<Rightarrow> style \<Rightarrow> string \<Rightarrow> pyfloat option \<Rightarrow> string \<times> font_state" where
  "average_level_html env st small_h3 arabic_font avg =
     (let (t, st1) = with_section_title_html env st ''Average Level'' (fontName small_h3)
                       (Some arabic_font);
          (r, st2) = rating_bilingual_html_from_average env st1 avg
      in (t @ '': '' @ r, st2))"

text \<open>The lines below the four tables: the average, the attendance, the coach and, when
  there are any, the notes.\<close>

definition overall_flowables ::
  "env \<Rightarrow> font_state \<Rightarrow> style \<Rightarrow> style \<Rightarrow> string \<Rightarrow> evaluation \<Rightarrow>
   exn + (flowable list \<times> font_state)" where
  "overall_flowables env st small_h3 normal_small arabic_font ev =
     (let (avg_html, st1) = average_level_html env st small_h3 arabic_font (average_rating ev)
      in bind (mk_paragraph env avg_html small_h3) (\<lambda>avg_para.
           (let (attendance_html, st2) =
                  with_translation_html env st1 ''Attendance and punctuality''
                    (fontName normal_small) (Some arabic_font);
                (attendance_rating, st3) =
                  rating_bilingual_html env st2 (attendance_and_punctuality ev)
            in bind (mk_paragraph env (attendance_html @ '': '' @ attendance_rating) normal_small)
                 (\<lambda>attendance_para.
               bind (mk_paragraph env (''Coach: '' @ coach ev) normal_small) (\<lambda>coach_para.
               bind (if truthy (ev_notes ev)
                     then bind (mk_paragraph env (''Notes: '' @ the (ev_notes ev)) normal_small)
                            (\<lambda>notes_para. Inr [Spacer 1 4, notes_para])
                     else Inr []) (\<lambda>notes_part.
                 Inr ([avg_para, attendance_para, coach_para] @ notes_part, st3)))))))"

definition evaluation_flowables ::
  "env \<Rightarrow> font_state \<Rightarrow> style \<Rightarrow> style \<Rightarrow> style \<Rightarrow> string \<Rightarrow> evaluation \<Rightarrow>
   exn + (flowable list \<times> font_state)" where
  "evaluation_flowables env st small_h3 normal_small arabic_label_style arabic_font ev =
     bind (rating_section env st small_h3 normal_small arabic_label_style arabic_font
             ''Technical Skills'' ''Skill''
             [(''Ball control'', ball_control ev), (''Passing'', passing ev),
              (''Dribbling'', dribbling ev), (''Shooting'', shooting ev),
              (''Using both feet'', using_both_feet ev)]) (\<lambda>(tech, st1).
     bind (rating_section env st1 small_h3 normal_small arabic_label_style arabic_font
             ''Physical Abilities'' ''Attribute''
             [(''Speed'', speed ev), (''Agility'', agility ev),
              (''Endurance'', endurance ev), (''Strength'', strength ev)]) (\<lambda>(phys, st2).
     bind (rating_section env st2 small_h3 normal_small arabic_label_style arabic_font
             ''Technical Understanding'' ''Aspect''
             [(''Positioning'', positioning ev), (''Decision making'', decision_making ev),
              (''Game awareness'', game_awareness ev), (''Teamwork'', teamwork ev)]) (\<lambda>(tu, st3).
     bind (rating_section env st3 small_h3 normal_small arabic_label_style arabic_font
             ''Psychological and Social'' ''Aspect''
             [(''Respect'', respect ev), (''Sportsmanship'', sportsmanship ev),
              (''Confidence'', confidence ev), (''Leadership'', leadership ev)]) (\<lambda>(psy, st4).
     bind (overall_flowables env st4 small_h3 normal_small arabic_font ev) (\<lambda>(overall, st5).
       Inr (tech @ phys @ tu @ psy @ overall, st5))))))"

definition coach_opinion_ar :: string where
  "coach_opinion_ar =
     [CHR 0xD8, CHR 0xB1, CHR 0xD8, CHR 0xA3, CHR 0xD9, CHR 0x8A] @ '' '' @ [CHR 0xD8, CHR 0xA7,
     CHR 0xD9, CHR 0x84, CHR 0xD9, CHR 0x85, CHR 0xD8, CHR 0xAF, CHR 0xD8, CHR 0xB1, CHR 0xD8,
     CHR 0xA8]"

definition needs_development_ar :: string where
  "needs_development_ar =
     [CHR 0xD9, CHR 0x85, CHR 0xD8, CHR 0xA7] @ '' '' @ [CHR 0xD9, CHR 0x8A, CHR 0xD8, CHR 0xAD,
     CHR 0xD8, CHR 0xAA, CHR 0xD8, CHR 0xA7, CHR 0xD8, CHR 0xAC] @ '' '' @ [CHR 0xD8, CHR 0xA7,
     CHR 0xD9, CHR 0x84, CHR 0xD9, CHR 0x84, CHR 0xD8, CHR 0xA7, CHR 0xD8, CHR 0xB9, CHR 0xD8,
     CHR 0xA8] @ '' '' @ [CHR 0xD8, CHR 0xAA, CHR 0xD8, CHR 0xB7, CHR 0xD9, CHR 0x88, CHR 0xD9,
     CHR 0x8A, CHR 0xD8, CHR 0xB1, CHR 0xD9, CHR 0x87]"

text \<open>The two Arabic headings that close the player report. They are appended inside
  \<^verbatim>\<open>try\<close>: when the paragraph of a shaped heading cannot be made, what was appended so
  far stays in the story, and the handler appends the spacers and the two headings again,
  unshaped; an exception there reaches the caller.\<close>

definition unshaped_headings :: "env \<Rightarrow> style \<Rightarrow> exn + flowable list" where
  "unshaped_headings env heading_style =
     bind (mk_paragraph env coach_opinion_ar heading_style) (\<lambda>h1.
     bind (mk_paragraph env needs_development_ar heading_style) (\<lambda>h2.
       Inr [Spacer 1 10, h1, Spacer 1 6, h2]))"

definition closing_headings :: "env \<Rightarrow> style \<Rightarrow> exn + flowable list" where
  "closing_headings env heading_style =
     (case mk_paragraph env (shape_arabic env coach_opinion_ar) heading_style of
        Inl e \<Rightarrow>
          bind (unshaped_headings env heading_style) (\<lambda>again. Inr ([Spacer 1 10] @ again))
      | Inr h1 \<Rightarrow>
          (case mk_paragraph env (shape_arabic env needs_development_ar) heading_style of
             Inl e \<Rightarrow>
               bind (unshaped_headings env heading_style) (\<lambda>again.
                 Inr ([Spacer 1 10, h1, Spacer 1 6] @ again))
           | Inr h2 \<Rightarrow> Inr [Spacer 1 10, h1, Spacer 1 6, h2]))"

text \<open>The part of the story that depends on the evaluation: the rating blocks, or the
  placeholder paragraph.\<close>

definition report_body ::
  "env \<Rightarrow> font_state \<Rightarrow> style \<Rightarrow> style \<Rightarrow> style \<Rightarrow> string \<Rightarrow> evaluation option \<Rightarrow>
   exn + (flowable list \<times> font_state)" where
  "report_body env st small_h3 normal_small arabic_label_style arabic_font ev =
     (case ev of
        Some e \<Rightarrow> evaluation_flowables env st small_h3 normal_small arabic_label_style arabic_font e
      | None \<Rightarrow>
          bind (mk_paragraph env ''No evaluation available.'' (styles env ''Normal''))
            (\<lambda>placeholder. Inr ([placeholder], st)))"

text \<open>The story of the player report, in the order the module makes its parts.\<close>

definition player_story :: "env \<Rightarrow> font_state \<Rightarrow> player \<Rightarrow> exn + (flowable list \<times> font_state)" where
  "player_story env st p =
     (let small_title = (clone (styles env ''Title'') ''SmallTitle'')\<lparr>fontSize := 16, leading := 18\<rparr>;
          small_h3 = (clone (styles env ''Heading3'') ''SmallH3'')\<lparr>fontSize := 10, leading := 12\<rparr>;
          normal_small = (clone (styles env ''Normal'') ''NormalSmall'')\<lparr>fontSize := 9, leading := 11\<rparr>;
          (arabic_font, st1) = register_arabic_font env st;
          arabic_label_style = (clone normal_small ''ArabicLabel'')\<lparr>fontName := arabic_font\<rparr>;
          small_h3_ar = (clone small_h3 ''SmallH3Arabic'')\<lparr>fontName := arabic_font\<rparr>;
          arabic_right_heading = (clone small_h3_ar ''ArabicRightHeading'')\<lparr>alignment := TA_RIGHT\<rparr>
      in bind (mk_cell env ''Player Report'' small_title) (\<lambda>title_para.
         bind (py_str (age p)) (\<lambda>age_text.
           (let details_lines =
                  [''Name: '' @ name p, ''Group: '' @ group_name p, ''Age: '' @ age_text] @
                  (if truthy (phone p) then [''Phone: '' @ the (phone p)] else [])
            in bind (mk_cell env (join ''<br/>'' details_lines) normal_small) (\<lambda>details_para.
               bind (photo_image env (photo p) 100 100) (\<lambda>(img, tried).
               bind (logo_image env 60 60) (\<lambda>logo.
               bind (latest_evaluation p) (\<lambda>ev.
               bind (report_body env st1 small_h3 normal_small arabic_label_style arabic_font ev)
                 (\<lambda>(body, st2).
               bind (closing_headings env arabic_right_heading) (\<lambda>closing.
                 Inr ([Table
                         [[image_cell logo, title_para, image_cell img],
                          [CText [], details_para, CText []]]
                         [Some 70, None, Some 110] 0 player_header_style,
                       Spacer 1 8] @ body @ closing,
                      st2)))))))))))"

definition player_fallback_story :: "env \<Rightarrow> player \<Rightarrow> exn + flowable list" where
  "player_fallback_story env p =
     bind (mk_paragraph env ''Player Report'' (styles env ''Title'')) (\<lambda>title.
     bind (mk_paragraph env (''Name: '' @ name p) (styles env ''Normal'')) (\<lambda>line.
       Inr [title, Spacer 1 12, line]))"

text \<open>\<^verbatim>\<open>build_player_report\<close>. On \<^verbatim>\<open>OSError\<close> the fallback is built by a new document
  template over the same buffer, and the function returns all the buffer holds.\<close>

definition build_player_report :: "env \<Rightarrow> font_state \<Rightarrow> player \<Rightarrow> exn + (bytes \<times> font_state)" where
  "build_player_report env st p =
     bind (player_story env st p) (\<lambda>(story, st1).
       case doc_build_into env player_template [] story of
         (None, buffer) \<Rightarrow> Inr (buffer, st1)
       | (Some e, buffer) \<Rightarrow>
           if e = OSError then
             bind (player_fallback_story env p) (\<lambda>fallback_story.
               case doc_build_into env A4 buffer fallback_story of
                 (None, buffer2) \<Rightarrow> Inr (buffer2, st1)
               | (Some e2, buffer2) \<Rightarrow> Inl e2)
           else Inl e)"

text \<open>The rating tables of a story: the tables whose header row is one of the three the
  player report writes above its ratings.\<close>

definition rating_header :: "cell list \<Rightarrow> bool" where
  "rating_header row =
     (row = [CText ''Skill'', CText ''Rating''] \<or> row = [CText ''Attribute'', CText ''Rating''] \<or>
      row = [CText ''Aspect'', CText ''Rating''])"

fun is_rating_table :: "flowable \<Rightarrow> bool" where
  "is_rating_table (Table (row # rows) widths rep sty) = rating_header row"
| "is_rating_table f = False"

fun is_table :: "flowable \<Rightarrow> bool" where
  "is_table (Table rows widths rep sty) = True"
| "is_table f = False"

section \<open>The resolution order, as the specification words it\<close>

text \<open>The specification describes the resolution of a photo as a chain of sources tried
  in a fixed order, the first success being taken. \<open>first_success\<close> is that reading: it
  returns the first image a source gives, with the sources tried up to that point.\<close>

fun first_success :: "(source \<Rightarrow> image option) \<Rightarrow> source list \<Rightarrow> image option \<times> source list" where
  "first_success f [] = (None, [])"
| "first_success f (s # ss) =
     (case f s of
        Some i \<Rightarrow> (Some i, [s])
      | None \<Rightarrow> (case first_success f ss of (r, tried) \<Rightarrow> (r, s # tried)))"

text \<open>What \<^verbatim>\<open>getattr(photo, ..., None)\<close> gives when it returns.\<close>

fun attr_value :: "exn + string option \<Rightarrow> string option" where
  "attr_value (Inr v) = v"
| "attr_value (Inl e) = None"

fun returns :: "exn + 'a \<Rightarrow> bool" where
  "returns (Inr v) = True"
| "returns (Inl e) = False"

text \<open>The local path of a photo: the field's \<^verbatim>\<open>path\<close> attribute when it has one, else the
  stored name under the media root.\<close>

definition local_path :: "env \<Rightarrow> photo_field \<Rightarrow> string" where
  "local_path env ph =
     (if truthy (attr_value (field_path ph)) then the (attr_value (field_path ph))
      else path_join (MEDIA_ROOT env) (field_name ph))"

definition public_url :: "env \<Rightarrow> photo_field \<Rightarrow> string" where
  "public_url env ph =
     urljoin env (PUBLIC_BASE_URL env @ ''/'') (lstrip_slash (the (attr_value (field_url ph))))"

text \<open>The sources that apply to a photo, in order: none for a field without a file; the
  HTTP source only when a public base URL is configured and the field has a relative URL.\<close>

definition photo_plan :: "env \<Rightarrow> photo_field \<Rightarrow> source list" where
  "photo_plan env ph =
     (if field_set ph then
        [Storage, LocalFile (local_path env ph)] @
        (if truthy (attr_value (field_url ph)) \<and> PUBLIC_BASE_URL env \<noteq> [] \<and>
            startswith (the (attr_value (field_url ph))) ''/''
         then [Http (public_url env ph)] else [])
      else [])"

text \<open>What one source gives: the result of the helper that reads it.\<close>

fun returned :: "exn + image option \<Rightarrow> image option" where
  "returned (Inr r) = r"
| "returned (Inl e) = None"

fun attempt :: "env \<Rightarrow> photo_field \<Rightarrow> nat \<Rightarrow> nat \<Rightarrow> source \<Rightarrow> image option" where
  "attempt env ph w h Storage = returned (image_from_field env ph w h)"
| "attempt env ph w h (LocalFile p) = returned (safe_image env p w h)"
| "attempt env ph w h (Http u) = returned (url_image env u w h)"

section \<open>Fonts and layout engines\<close>

text \<open>A font file the registration can use: it exists and loads.\<close>

definition usable :: "env \<Rightarrow> string \<Rightarrow> bool" where
  "usable env p = (path_exists env p = Inr True \<and> load_font env p = None)"

text \<open>Two properties of a layout engine. It writes to the buffer only when the whole
  document is laid out, so a build that raises has written nothing; and a document it
  builds is never empty.\<close>

definition writes_at_end :: "env \<Rightarrow> bool" where
  "writes_at_end env = (\<forall>tpl story e part. doc_build env tpl story = Failed e part \<longrightarrow> part = [])"

definition never_empty :: "env \<Rightarrow> bool" where
  "never_empty env = (\<forall>tpl story b. doc_build env tpl story = Built b \<longrightarrow> b \<noteq> [])"

section \<open>Sample inputs\<close>

text \<open>The four styles of the layout library's sample sheet that the module uses.\<close>

definition sample_styles :: "string \<Rightarrow> style" where
  "sample_styles n =
     (if n = ''Title'' then
        \<lparr>style_name = n, fontName = ''Helvetica-Bold'', fontSize = 18, leading = 22, alignment = 1\<rparr>
      else if n = ''Heading2'' then
        \<lparr>style_name = n, fontName = ''Helvetica-Bold'', fontSize = 14, leading = 18, alignment = 0\<rparr>
      else if n = ''Heading3'' then
        \<lparr>style_name = n, fontName = ''Helvetica-BoldOblique'', fontSize = 12, leading = 14,
         alignment = 0\<rparr>
      else
        \<lparr>style_name = n, fontName = ''Helvetica'', fontSize = 10, leading = 12, alignment = 0\<rparr>)"

text \<open>A layout engine for the examples. An image made from a file name is read only when
  the document is built; this engine finds every such file unreadable by then and raises
  \<^verbatim>\<open>OSError\<close>, having written nothing. Any other story it builds.\<close>

fun lazy_cell :: "cell \<Rightarrow> bool" where
  "lazy_cell (CImage i) = (case img_src i of FromFile p \<Rightarrow> True | FromReader d \<Rightarrow> False)"
| "lazy_cell c = False"

fun lazy_flowable :: "flowable \<Rightarrow> bool" where
  "lazy_flowable (Table rows widths rep sty) = (filter lazy_cell (concat rows) \<noteq> [])"
| "lazy_flowable f = False"

fun flowable_text :: "flowable \<Rightarrow> string" where
  "flowable_text (Paragraph t sty) = t @ ''|''"
| "flowable_text (Spacer w h) = []"
| "flowable_text (Table rows widths rep sty) = ''[table]''"

definition sample_build :: "doc_template \<Rightarrow> flowable list \<Rightarrow> build_outcome" where
  "sample_build tpl story =
     (if filter lazy_flowable story \<noteq> [] then Failed OSError []
      else Built (''%PDF-1.4 '' @ concat (map flowable_text story) @ ''%%EOF''))"

text \<open>A markup parser for the examples: it refuses a bold tag that is not closed.\<close>

definition sample_parser :: "string \<Rightarrow> style \<Rightarrow> exn option" where
  "sample_parser t sty =
     (if sublist ''<b>'' t \<and> \<not> sublist ''</b>'' t then Some ValueError else None)"

text \<open>A deployment with the logo beside the module, no font on disk, no shaping package,
  and the photo \<^verbatim>\<open>/srv/media/photos/a.png\<close> on disk.\<close>

definition sample_env :: env where
  "sample_env =
     \<lparr>module_dir = ''/srv/app/core'', BASE_DIR = ''/srv/app'', MEDIA_ROOT = ''/srv/media'',
      PUBLIC_BASE_URL = ''https://academy.example'', LOGO_URL = [],
      path_exists = (\<lambda>p. Inr (p = ''/srv/app/core/logo.png'' \<or> p = ''/srv/media/photos/a.png'')),
      path_is_file = (\<lambda>p. Inr True),
      image_reader_file = (\<lambda>p. None),
      image_reader_bytes = (\<lambda>d. if d = [] then Some OSError else None),
      image_ctor = (\<lambda>s. None),
      urlopen_read = (\<lambda>u. Inl OSError),
      urljoin = (\<lambda>b u. b @ u),
      load_font = (\<lambda>p. None),
      shaper = None,
      styles = sample_styles,
      paragraph_ctor = sample_parser,
      doc_build = sample_build\<rparr>"

text \<open>The same deployment with nothing on disk.\<close>

definition bare_env :: env where
  "bare_env = sample_env\<lparr>path_exists := (\<lambda>p. Inr False)\<rparr>"

text \<open>An environment in which every access raises.\<close>

definition hostile_env :: env where
  "hostile_env =
     sample_env\<lparr>path_exists := (\<lambda>p. Inl OSError), path_is_file := (\<lambda>p. Inl OSError),
       image_reader_file := (\<lambda>p. Some OSError), image_reader_bytes := (\<lambda>d. Some OSError),
       image_ctor := (\<lambda>s. Some RuntimeError), urlopen_read := (\<lambda>u. Inl OSError)\<rparr>"

definition fresh :: font_state where
  "fresh = \<lparr>registered = Map.empty, TTFSearchPath = {}\<rparr>"

definition no_photo :: photo_field where
  "no_photo =
     \<lparr>field_set = False, field_open = Some ValueError, field_read = Inl ValueError,
      field_close = None, field_path = Inr None, field_name = [], field_url = Inr None\<rparr>"

text \<open>A photo whose storage cannot be read while its file is on disk.\<close>

definition disk_photo :: photo_field where
  "disk_photo =
     \<lparr>field_set = True, field_open = Some OSError, field_read = Inl OSError,
      field_close = None, field_path = Inr None, field_name = ''photos/a.png'',
      field_url = Inr (Some ''/media/photos/a.png'')\<rparr>"

text \<open>A photo field on which every call raises.\<close>

definition raising_photo :: photo_field where
  "raising_photo =
     \<lparr>field_set = True, field_open = Some OSError, field_read = Inl OSError,
      field_close = Some OSError, field_path = Inl AttributeError,
      field_name = ''photos/b.png'', field_url = Inl AttributeError\<rparr>"

text \<open>A photo on a storage that has no local paths, whose bytes cannot be read.\<close>

definition remote_photo :: photo_field where
  "remote_photo =
     \<lparr>field_set = True, field_open = Some OSError, field_read = Inl OSError,
      field_close = None, field_path = Inl NotImplementedError,
      field_name = ''photos/c.png'', field_url = Inr (Some ''/media/photos/c.png'')\<rparr>"

definition amal :: player where
  "amal =
     \<lparr>name = ''Amal'', group_name = ''U12'', age = VInt 11, phone = None, photo = no_photo,
      evaluations = Some (Inr [])\<rparr>"

definition badr :: player where
  "badr = amal\<lparr>name := ''Badr'', phone := Some ''0100'', photo := disk_photo\<rparr>"

definition u12 :: group where
  "u12 = \<lparr>gname = ''U12'', gcoach = ''Hazem'', players = [amal, badr]\<rparr>"

text \<open>A player whose photo is on the remote storage, alone in a group; and a player
  whose name holds a bold tag that is not closed.\<close>

definition dina :: player where
  "dina = amal\<lparr>name := ''Dina'', photo := remote_photo\<rparr>"

definition u14 :: group where
  "u14 = \<lparr>gname = ''U14'', gcoach = ''Hazem'', players = [dina]\<rparr>"

definition ali :: player where
  "ali = amal\<lparr>name := ''<b>Ali''\<rparr>"

text \<open>A player whose name opens a bold tag that the name of the group closes.\<close>

definition zed :: player where
  "zed = amal\<lparr>name := ''<b>Zed'', group_name := ''</b>U12''\<rparr>"

text \<open>A deployment with one font on disk, and one whose shaping package reverses its input.\<close>

definition font_env :: env where
  "font_env =
     sample_env\<lparr>path_exists := (\<lambda>p. Inr (p = ''/usr/share/fonts/truetype/dejavu/DejaVuSans.ttf''))\<rparr>"

definition mirror_env :: env where
  "mirror_env = sample_env\<lparr>shaper := Some (\<lambda>s. Inr (rev s))\<rparr>"

section \<open>Rating labels: properties\<close>

lemma ten_le_limit: "(10::int) \<le> 10 ^ max_str_digits"
proof -
  have "(10::int) ^ 1 \<le> 10 ^ max_str_digits"
    by (rule power_increasing) (simp_all add: max_str_digits_def)
  then show ?thesis by simp
qed

lemma below_limit: "n < 10 \<Longrightarrow> ((10::int) ^ max_str_digits \<le> n) = False"
  using ten_le_limit by simp

lemma rating_labels_cases:
  "rating_label (VInt 1) = ''Bad''" "rating_label (VInt 2) = ''Not bad''"
  "rating_label (VInt 3) = ''Good''" "rating_label (VInt 4) = ''Very Good''"
  "rating_label (VInt 5) = ''Excellent''"
  by (simp_all add: rating_label_def RATING_LABELS_def below_limit)

lemma RATING_LABELS_outside: "r < 1 \<or> 5 < r \<Longrightarrow> RATING_LABELS r = None"
  by (auto simp: RATING_LABELS_def)

lemma str_nat_hd: "str_nat n \<noteq> [] \<and> hd (str_nat n) \<in> set ''0123456789''"
proof (induction n rule: str_nat.induct)
  case (1 n)
  show ?case
  proof (cases "n < 10")
    case True
    then have "n \<in> {0,1,2,3,4,5,6,7,8,9}" by auto
    then show ?thesis
      by (subst str_nat.simps, subst str_nat.simps) (auto simp: digit_char_def)
  next
    case False
    with 1 show ?thesis
      by (subst str_nat.simps, subst str_nat.simps) auto
  qed
qed

lemma str_int_not_unknown: "str_int r \<noteq> unknown_marker"
proof
  assume a: "str_int r = unknown_marker"
  have "hd (str_int r) \<in> set ''-0123456789''"
    using str_nat_hd [of "nat r"] by (auto simp: str_int_def)
  with a show False by (simp add: unknown_marker_def)
qed

lemma rating_label_in_range:
  assumes "1 \<le> r" "r \<le> 5"
  shows "rating_label (VInt r) \<in> {''Bad'', ''Not bad'', ''Good'', ''Very Good'', ''Excellent''}"
proof -
  from assms have "r = 1 \<or> r = 2 \<or> r = 3 \<or> r = 4 \<or> r = 5" by arith
  then show ?thesis using rating_labels_cases by (elim disjE) simp_all
qed

text \<open>
  Claim C2, as the code has it. For an integer rating between 1 and 5, \<^verbatim>\<open>rating_label\<close>
  returns the label of the table, and for \<^verbatim>\<open>None\<close> it returns the dash. For an integer
  outside 1..5 the lookup falls back on its default, \<^verbatim>\<open>str(value)\<close>: the result is the
  decimal text of the number, which is never the dash, as long as the number has at most
  4300 digits. Beyond that \<^verbatim>\<open>str\<close> raises \<^verbatim>\<open>ValueError\<close>, and the handler returns
  the dash.
\<close>

theorem rating_label_total:
  "rating_label (VInt 1) = ''Bad'' \<and> rating_label (VInt 2) = ''Not bad'' \<and>
   rating_label (VInt 3) = ''Good'' \<and> rating_label (VInt 4) = ''Very Good'' \<and>
   rating_label (VInt 5) = ''Excellent'' \<and>
   ((r < 1 \<or> 5 < r) \<and> \<bar>r\<bar> < 10 ^ max_str_digits \<longrightarrow>
      rating_label (VInt r) = str_int r \<and> rating_label (VInt r) \<noteq> unknown_marker) \<and>
   (10 ^ max_str_digits \<le> \<bar>r\<bar> \<longrightarrow> rating_label (VInt r) = unknown_marker) \<and>
   rating_label VNone = unknown_marker"
proof -
  have "rating_label (VInt r) = str_int r \<and> rating_label (VInt r) \<noteq> unknown_marker"
    if "r < 1 \<or> 5 < r" "\<bar>r\<bar> < 10 ^ max_str_digits"
    using that RATING_LABELS_outside [of r] str_int_not_unknown [of r]
    by (simp add: rating_label_def)
  moreover have "rating_label (VInt r) = unknown_marker" if "10 ^ max_str_digits \<le> \<bar>r\<bar>"
    using that by (simp add: rating_label_def)
  moreover have "rating_label VNone = unknown_marker"
    by (simp add: rating_label_def)
  ultimately show ?thesis
    using rating_labels_cases by blast
qed

theorem rating_label_total_witness:
  "((7::int) < 1 \<or> 5 < (7::int)) \<and> rating_label (VInt 7) = ''7'' \<and>
   rating_label (VInt 7) \<noteq> unknown_marker \<and>
   rating_label (VInt (10 ^ max_str_digits)) = unknown_marker"
proof -
  have "str_int 7 = ''7''" by code_simp
  moreover have "\<bar>7::int\<bar> < 10 ^ max_str_digits"
    using ten_le_limit by simp
  moreover have "(10::int) ^ max_str_digits \<le> \<bar>10 ^ max_str_digits\<bar>"
    by simp
  ultimately show ?thesis
    using rating_label_total [of 7] rating_label_total [of "10 ^ max_str_digits"]
    by (simp add: unknown_marker_def)
qed

text \<open>The claim C2 as the specification words it fails at 7: the result is the text
  \<^verbatim>\<open>7\<close>, not the dash.\<close>

theorem rating_label_out_of_range_counterexample:
  "rating_label (VInt 7) = ''7'' \<and> rating_label (VInt 7) \<noteq> unknown_marker"
proof -
  have "str_int 7 = ''7''" by code_simp
  moreover have "RATING_LABELS 7 = None"
    by (simp add: RATING_LABELS_def)
  ultimately show ?thesis
    by (simp add: rating_label_def below_limit unknown_marker_def)
qed

text \<open>
  Claim C4. For a finite average, \<^verbatim>\<open>rating_label_from_average\<close> is \<^verbatim>\<open>rating_label\<close> of
  the average rounded (ties to even) and clamped to 1..5, hence one of the five labels; for
  \<^verbatim>\<open>None\<close> it is the dash. An infinity or a NaN makes \<^verbatim>\<open>round\<close> raise, and the
  handler returns the dash as well.
\<close>

theorem rating_label_from_average_clamp:
  "rating_label_from_average None = unknown_marker \<and>
   rating_label_from_average (Some (Finite q)) =
     rating_label (VInt (max 1 (min 5 (round_half_even q)))) \<and>
   rating_label_from_average (Some (Finite q))
     \<in> {''Bad'', ''Not bad'', ''Good'', ''Very Good'', ''Excellent''} \<and>
   rating_label_from_average (Some PosInf) = unknown_marker \<and>
   rating_label_from_average (Some NegInf) = unknown_marker \<and>
   rating_label_from_average (Some NaN) = unknown_marker"
proof -
  have "rating_label (VInt (max 1 (min 5 (round_half_even q))))
          \<in> {''Bad'', ''Not bad'', ''Good'', ''Very Good'', ''Excellent''}"
    by (rule rating_label_in_range) auto
  then show ?thesis by (simp add: rating_label_from_average_def)
qed

section \<open>The image helpers never raise\<close>

lemma try_except_cases: "try_except m d = Inr (case m of Inl e \<Rightarrow> d | Inr x \<Rightarrow> x)"
  by (simp add: try_except_def split: sum.splits)

lemma safe_image_total:
  "\<exists>r. safe_image env p w h = Inr r \<and> (case r of None \<Rightarrow> True | Some i \<Rightarrow> embeddable env i)"
  by (auto simp: safe_image_def try_except_def bind_def embeddable_def new_image_def Let_def
      split: sum.splits option.splits if_splits)

lemma url_image_total:
  "\<exists>r. url_image env u w h = Inr r \<and> (case r of None \<Rightarrow> True | Some i \<Rightarrow> embeddable env i)"
  by (auto simp: url_image_def try_except_def bind_def embeddable_def new_image_def
      split: sum.splits option.splits if_splits)

lemma image_from_field_total:
  "\<exists>r. image_from_field env f w h = Inr r \<and>
       (case r of None \<Rightarrow> True | Some i \<Rightarrow> embeddable env i)"
  by (auto simp: image_from_field_def try_except_def bind_def embeddable_def new_image_def
      split: sum.splits option.splits if_splits)

lemma logo_image_total: "\<exists>r. logo_image env w h = Inr r"
  by (auto simp: logo_image_def try_except_def bind_def split: sum.splits option.splits)

lemma latest_evaluation_total: "\<exists>r. latest_evaluation p = Inr r"
  by (simp add: latest_evaluation_def try_except_cases)

lemma latest_evaluation_empty:
  "evaluations p = Some (Inr []) \<Longrightarrow> latest_evaluation p = Inr None"
  by (simp add: latest_evaluation_def try_except_def bind_def)

text \<open>
  Claim C6. Whatever the file system, the storage field, the HTTP client, the image decoder
  and the image constructor do, each of \<^verbatim>\<open>_safe_image\<close>, \<^verbatim>\<open>_url_image\<close> and
  \<^verbatim>\<open>_image_from_field\<close> returns: no exception reaches the caller. What it returns is
  \<^verbatim>\<open>None\<close> or an image the decoder has accepted.
\<close>

theorem image_helpers_total:
  "(\<exists>r. safe_image env p w h = Inr r \<and>
        (case r of None \<Rightarrow> True | Some i \<Rightarrow> embeddable env i)) \<and>
   (\<exists>r. url_image env u w h = Inr r \<and>
        (case r of None \<Rightarrow> True | Some i \<Rightarrow> embeddable env i)) \<and>
   (\<exists>r. image_from_field env f w h = Inr r \<and>
        (case r of None \<Rightarrow> True | Some i \<Rightarrow> embeddable env i))"
  using safe_image_total url_image_total image_from_field_total by blast

text \<open>With every access raising, each helper returns \<^verbatim>\<open>None\<close>.\<close>

lemma hostile_helpers:
  "safe_image hostile_env ''/srv/media/photos/b.png'' 100 100 = Inr None"
  "url_image hostile_env ''https://academy.example/media/photos/b.png'' 100 100 = Inr None"
  "image_from_field hostile_env raising_photo 100 100 = Inr None"
  by (simp_all add: safe_image_def url_image_def image_from_field_def hostile_env_def
      sample_env_def try_except_def bind_def startswith_def field_bytes_def raising_photo_def)

theorem image_helpers_total_witness:
  "safe_image hostile_env ''/srv/media/photos/b.png'' 100 100 = Inr None \<and>
   url_image hostile_env ''https://academy.example/media/photos/b.png'' 100 100 = Inr None \<and>
   image_from_field hostile_env raising_photo 100 100 = Inr None"
proof -
  have no_image: "\<not> embeddable hostile_env i" for i
    by (simp add: embeddable_def hostile_env_def sample_env_def)
  from image_helpers_total [of hostile_env "''/srv/media/photos/b.png''" 100 100
      "''https://academy.example/media/photos/b.png''" raising_photo]
  show ?thesis
    by (auto simp: no_image split: option.splits)
qed

section \<open>The order in which a photo is resolved\<close>

lemma first_success_prefix: "prefix (snd (first_success f ss)) ss"
  by (induction ss) (auto split: option.splits prod.splits)

lemma first_success_Some:
  "first_success f ss = (Some i, tried) \<Longrightarrow>
     tried \<noteq> [] \<and> f (last tried) = Some i \<and> list_all (\<lambda>s. f s = None) (butlast tried)"
proof (induction ss arbitrary: tried)
  case Nil
  then show ?case by simp
next
  case (Cons s ss)
  show ?case
  proof (cases "f s")
    case None
    with Cons.prems obtain t where t: "first_success f ss = (Some i, t)" "tried = s # t"
      by (auto split: prod.splits)
    from Cons.IH [OF t(1)] None t(2) show ?thesis by auto
  next
    case (Some j)
    with Cons.prems show ?thesis by auto
  qed
qed

lemma first_success_None:
  "first_success f ss = (None, tried) \<Longrightarrow> tried = ss \<and> list_all (\<lambda>s. f s = None) ss"
proof (induction ss arbitrary: tried)
  case Nil
  then show ?case by simp
next
  case (Cons s ss)
  show ?case
  proof (cases "f s")
    case None
    with Cons.prems obtain t where t: "first_success f ss = (None, t)" "tried = s # t"
      by (auto split: prod.splits)
    from Cons.IH [OF t(1)] None t(2) show ?thesis by auto
  next
    case (Some j)
    with Cons.prems show ?thesis by auto
  qed
qed

lemma getattr_returns: "returns (getattr_none m) \<Longrightarrow> getattr_none m = Inr (attr_value m)"
  by (cases m) (auto simp: getattr_none_def split: if_splits)

text \<open>As long as reading the two attributes of the field does not raise, resolving the
  photo returns the first success along the plan.\<close>

lemma photo_image_plan:
  assumes "returns (getattr_none (field_path ph))" and "returns (getattr_none (field_url ph))"
  shows "photo_image env ph w h = Inr (first_success (attempt env ph w h) (photo_plan env ph))"
proof -
  obtain r1 where r1: "image_from_field env ph w h = Inr r1"
    using image_from_field_total by blast
  obtain r2 where r2: "safe_image env (local_path env ph) w h = Inr r2"
    using safe_image_total by blast
  obtain r3 where r3: "url_image env (public_url env ph) w h = Inr r3"
    using url_image_total by blast
  note attrs = getattr_returns [OF assms(1)] getattr_returns [OF assms(2)]
  show ?thesis
    using r1 r2 r3
    by (cases r1; cases r2; cases r3)
       (simp_all add: photo_image_def photo_plan_def bind_def Let_def attrs
          local_path_def [symmetric] public_url_def [symmetric])
qed

text \<open>When the storage gives no image and reading \<^verbatim>\<open>path\<close> raises, the exception leaves
  the resolution: no later source is tried.\<close>

lemma photo_image_path_raises:
  assumes "field_set ph" and "image_from_field env ph w h = Inr None"
    and "getattr_none (field_path ph) = Inl e"
  shows "photo_image env ph w h = Inl e"
  using assms by (simp add: photo_image_def bind_def)

text \<open>As long as reading the two attributes does not raise, the sources tried are an
  initial part of the plan; an image returned comes from the last source tried, every
  source before it having given none; and none is returned only after every source of the
  plan gave none.\<close>

lemma photo_image_first_success:
  assumes "returns (getattr_none (field_path ph))" and "returns (getattr_none (field_url ph))"
  shows "\<exists>img tried.
     photo_image env ph w h = Inr (img, tried) \<and>
     (img, tried) = first_success (attempt env ph w h) (photo_plan env ph) \<and>
     prefix tried (photo_plan env ph) \<and>
     prefix (photo_plan env ph)
       [Storage, LocalFile (local_path env ph), Http (public_url env ph)] \<and>
     (case img of
        Some i \<Rightarrow>
          tried \<noteq> [] \<and> attempt env ph w h (last tried) = Some i \<and>
          list_all (\<lambda>s. attempt env ph w h s = None) (butlast tried)
      | None \<Rightarrow>
          tried = photo_plan env ph \<and> list_all (\<lambda>s. attempt env ph w h s = None) tried)"
proof -
  obtain img tried where r: "first_success (attempt env ph w h) (photo_plan env ph) = (img, tried)"
    by (cases "first_success (attempt env ph w h) (photo_plan env ph)")
  have "prefix tried (photo_plan env ph)"
    using first_success_prefix [of "attempt env ph w h" "photo_plan env ph"] r by simp
  moreover have "prefix (photo_plan env ph)
       [Storage, LocalFile (local_path env ph), Http (public_url env ph)]"
    by (simp add: photo_plan_def)
  moreover have "case img of
        Some i \<Rightarrow>
          tried \<noteq> [] \<and> attempt env ph w h (last tried) = Some i \<and>
          list_all (\<lambda>s. attempt env ph w h s = None) (butlast tried)
      | None \<Rightarrow>
          tried = photo_plan env ph \<and> list_all (\<lambda>s. attempt env ph w h s = None) tried"
  proof (cases img)
    case None
    with r first_success_None [of "attempt env ph w h" "photo_plan env ph" tried]
    show ?thesis by simp
  next
    case (Some i)
    with r first_success_Some [of "attempt env ph w h" "photo_plan env ph" i tried]
    show ?thesis by simp
  qed
  ultimately show ?thesis
    using photo_image_plan [OF assms, of env w h] r by simp
qed

text \<open>A photo whose storage read fails and whose file is on disk: the image comes from
  the file, and the HTTP source, third in the plan, is not tried.\<close>

lemma disk_photo_resolution:
  "photo_image sample_env disk_photo 50 50 =
     Inr (Some \<lparr>img_src = FromFile ''/srv/media/photos/a.png'', img_width = 50, img_height = 50,
                hAlign = None\<rparr>,
          [Storage, LocalFile ''/srv/media/photos/a.png'']) \<and>
   photo_plan sample_env disk_photo =
     [Storage, LocalFile ''/srv/media/photos/a.png'',
      Http ''https://academy.example/media/photos/a.png'']"
  by code_simp

text \<open>The photo on the remote storage: its bytes cannot be read, and reading \<^verbatim>\<open>path\<close>
  raises. Whatever the deployment, the exception leaves the resolution, and with it the
  loop over the players and both reports.\<close>

lemma remote_photo_raises: "photo_image env remote_photo w h = Inl NotImplementedError"
proof (rule photo_image_path_raises)
  show "field_set remote_photo"
    by (simp add: remote_photo_def)
  show "image_from_field env remote_photo w h = Inr None"
    by (simp add: image_from_field_def field_bytes_def remote_photo_def try_except_def bind_def)
  show "getattr_none (field_path remote_photo) = Inl NotImplementedError"
    by (simp add: getattr_none_def remote_photo_def)
qed

lemma remote_photo_plan:
  "first_success (attempt sample_env remote_photo w h) (photo_plan sample_env remote_photo) =
     (None, [Storage, LocalFile ''/srv/media/photos/c.png'',
             Http ''https://academy.example/media/photos/c.png''])"
proof -
  have plan: "photo_plan sample_env remote_photo =
     [Storage, LocalFile ''/srv/media/photos/c.png'',
      Http ''https://academy.example/media/photos/c.png'']"
    by code_simp
  have "attempt sample_env remote_photo w h Storage = None"
    by (simp add: image_from_field_def field_bytes_def remote_photo_def try_except_def bind_def)
  moreover have "path_str ''/srv/media/photos/c.png'' = ''/srv/media/photos/c.png''"
    by code_simp
  then have "attempt sample_env remote_photo w h (LocalFile ''/srv/media/photos/c.png'') = None"
    by (simp add: safe_image_def try_except_def bind_def sample_env_def Let_def)
  moreover have "attempt sample_env remote_photo w h
      (Http ''https://academy.example/media/photos/c.png'') = None"
    by (simp add: url_image_def try_except_def bind_def sample_env_def)
  ultimately show ?thesis
    by (simp add: plan)
qed

section \<open>The summary table of the group report\<close>

lemma sample_engines:
  "doc_build bare_env = sample_build" "doc_build sample_env = sample_build"
  "shape_arabic bare_env s = s" "shape_arabic sample_env s = s"
  "paragraph_ctor bare_env = sample_parser" "paragraph_ctor sample_env = sample_parser"
  "styles bare_env = sample_styles" "styles sample_env = sample_styles"
  by (simp_all add: shape_arabic_def bare_env_def sample_env_def)

lemma returns_Inr: "returns m = (\<exists>v. m = Inr v)"
  by (cases m) simp_all

lemma mk_cell_cases:
  "mk_cell env t sty = Inr c \<longleftrightarrow> paragraph_ctor env t sty = None \<and> c = CPara t sty"
  by (auto simp: mk_cell_def split: option.splits)

lemma mk_paragraph_cases:
  "mk_paragraph env t sty = Inr f \<longleftrightarrow> paragraph_ctor env t sty = None \<and> f = Paragraph t sty"
  by (auto simp: mk_paragraph_def split: option.splits)

text \<open>The row of a player is made as soon as the photo is resolved without an exception,
  and then has four cells, the name second.\<close>

lemma group_row_shape:
  assumes "group_row env p = Inr row"
  shows "\<exists>c0 c2 c3. row = [c0, CText (name p), c2, c3]"
proof -
  obtain ev where "latest_evaluation p = Inr ev"
    using latest_evaluation_total by blast
  with assms show ?thesis
    by (auto simp: group_row_def bind_def split: sum.splits prod.splits)
qed

lemma group_row_returns:
  "returns (group_row env p) = returns (photo_image env (photo p) 50 50)"
proof -
  obtain ev where "latest_evaluation p = Inr ev"
    using latest_evaluation_total by blast
  then show ?thesis
    by (cases "photo_image env (photo p) 50 50") (auto simp: group_row_def bind_def)
qed

lemma group_rows_shape:
  assumes "group_rows env ps = Inr rows"
  shows "length rows = length ps \<and> list_all (\<lambda>row. length row = 4) rows \<and>
         map (\<lambda>row. row ! 1) rows = map (\<lambda>p. CText (name p)) ps"
  using assms
proof (induction ps arbitrary: rows)
  case Nil
  then show ?case by simp
next
  case (Cons p ps)
  from Cons.prems obtain row rest where parts: "group_row env p = Inr row"
    "group_rows env ps = Inr rest" "rows = row # rest"
    by (auto simp: bind_def split: sum.splits)
  obtain c0 c2 c3 where row: "row = [c0, CText (name p), c2, c3]"
    using group_row_shape [OF parts(1)] by blast
  from Cons.IH [OF parts(2)] row parts(3) show ?case by simp
qed

lemma group_rows_returns:
  "returns (group_rows env ps) = list_all (\<lambda>p. returns (photo_image env (photo p) 50 50)) ps"
proof (induction ps)
  case Nil
  show ?case by simp
next
  case (Cons p ps)
  then show ?case
    using group_row_returns [of env p]
    by (cases "group_row env p"; cases "group_rows env ps") (simp_all add: bind_def)
qed

lemma group_story_returns:
  "returns (group_story env g) =
     (paragraph_ctor env (''Group Report: '' @ gname g) (styles env ''Title'') = None \<and>
      paragraph_ctor env (''Coach: '' @ gcoach g) (styles env ''Heading2'') = None \<and>
      list_all (\<lambda>p. returns (photo_image env (photo p) 50 50)) (players g))"
proof -
  obtain logo where logo: "logo_image env 60 60 = Inr logo"
    using logo_image_total by blast
  show ?thesis
    using group_rows_returns [of env "players g"]
    by (cases "group_rows env (players g)")
       (auto simp: group_story_def group_data_def bind_def logo mk_cell_def split: option.splits)
qed

lemma group_story_shape:
  assumes "group_story env g = Inr story"
  shows "\<exists>rows header.
     story = [header, Spacer 1 12, Table (summary_header # rows) [] 1 summary_style] \<and>
     group_data env g = Inr (summary_header # rows) \<and> group_rows env (players g) = Inr rows"
  using assms
  by (auto simp: group_story_def group_data_def bind_def split: sum.splits)

text \<open>
  Claim C9. Whenever \<^verbatim>\<open>build_group_report\<close> comes to assemble its story, the summary table
  in it, handed to the layout engine after the header block and a spacer, has the header
  row followed by N rows of four cells for a group of N players, one per player in the
  order of the query: the second cell of the k-th row is the name of the k-th player. The
  story is assembled unless the markup of the title or of the coach line is refused, or
  resolving the photo of a player raises. When the layout engine builds the story, the
  function returns the bytes of that document.
\<close>

theorem group_summary_rows:
  "(group_story env g = Inr story \<longrightarrow>
      (\<exists>rows header.
         story = [header, Spacer 1 12, Table (summary_header # rows) [] 1 summary_style] \<and>
         group_data env g = Inr (summary_header # rows) \<and>
         length rows = length (players g) \<and>
         list_all (\<lambda>row. length row = 4) rows \<and>
         map (\<lambda>row. row ! 1) rows = map (\<lambda>p. CText (name p)) (players g)) \<and>
      (\<forall>b. doc_build env A4 story = Built b \<longrightarrow> build_group_report env g = Inr b)) \<and>
   returns (group_story env g) =
     (paragraph_ctor env (''Group Report: '' @ gname g) (styles env ''Title'') = None \<and>
      paragraph_ctor env (''Coach: '' @ gcoach g) (styles env ''Heading2'') = None \<and>
      list_all (\<lambda>p. returns (photo_image env (photo p) 50 50)) (players g))"
proof -
  have "\<exists>rows header.
         story = [header, Spacer 1 12, Table (summary_header # rows) [] 1 summary_style] \<and>
         group_data env g = Inr (summary_header # rows) \<and>
         length rows = length (players g) \<and>
         list_all (\<lambda>row. length row = 4) rows \<and>
         map (\<lambda>row. row ! 1) rows = map (\<lambda>p. CText (name p)) (players g)"
    if made: "group_story env g = Inr story"
  proof -
    obtain rows header where s:
      "story = [header, Spacer 1 12, Table (summary_header # rows) [] 1 summary_style]"
      "group_data env g = Inr (summary_header # rows)" "group_rows env (players g) = Inr rows"
      using group_story_shape [OF made] by blast
    from group_rows_shape [OF s(3)] s(1,2) show ?thesis by blast
  qed
  moreover have "build_group_report env g = Inr b"
    if "group_story env g = Inr story" "doc_build env A4 story = Built b" for b
    using that by (simp add: build_group_report_def bind_def doc_build_into_def)
  ultimately show ?thesis
    using group_story_returns [of env g] by blast
qed

text \<open>A group of two players in a deployment with nothing on disk.\<close>

lemma u12_rows:
  "group_row bare_env amal = Inr [CText [], CText ''Amal'', CNone, CText ''-'']"
  "group_row bare_env badr = Inr [CText [], CText ''Badr'', CText ''0100'', CText ''-'']"
  by code_simp+

lemma u12_bare_story:
  "group_story bare_env u12 =
     Inr [Table [[CText [], CPara ''Group Report: U12'' (sample_styles ''Title'')],
                 [CText [], CPara ''Coach: Hazem'' (sample_styles ''Heading2'')]]
            [Some 70, None] 0 group_header_style,
          Spacer 1 12,
          Table [summary_header,
                 [CText [], CText ''Amal'', CNone, CText ''-''],
                 [CText [], CText ''Badr'', CText ''0100'', CText ''-'']] [] 1 summary_style]"
proof -
  have "logo_image bare_env 60 60 = Inr None"
    by code_simp
  moreover have "sample_parser ''Group Report: U12'' sty = None"
    "sample_parser ''Coach: Hazem'' sty = None" for sty
    by (simp_all add: sample_parser_def sublist_code)
  ultimately show ?thesis
    by (simp add: group_story_def group_data_def bind_def mk_cell_def sample_engines u12_def
        u12_rows image_cell_def)
qed

theorem group_summary_rows_witness:
  "group_story bare_env u12 =
     Inr [Table [[CText [], CPara ''Group Report: U12'' (sample_styles ''Title'')],
                 [CText [], CPara ''Coach: Hazem'' (sample_styles ''Heading2'')]]
            [Some 70, None] 0 group_header_style,
          Spacer 1 12,
          Table [summary_header,
                 [CText [], CText ''Amal'', CNone, CText ''-''],
                 [CText [], CText ''Badr'', CText ''0100'', CText ''-'']] [] 1 summary_style] \<and>
   group_data bare_env u12 =
     Inr [summary_header,
          [CText [], CText ''Amal'', CNone, CText ''-''],
          [CText [], CText ''Badr'', CText ''0100'', CText ''-'']] \<and>
   length (players u12) = 2 \<and>
   list_all (\<lambda>p. returns (photo_image bare_env (photo p) 50 50)) (players u12) \<and>
   build_group_report bare_env u12 = Inr ''%PDF-1.4 [table][table]%%EOF''"
proof -
  have made: "returns (group_story bare_env u12)"
    by (simp add: u12_bare_story)
  have built: "doc_build bare_env A4
        [Table [[CText [], CPara ''Group Report: U12'' (sample_styles ''Title'')],
                 [CText [], CPara ''Coach: Hazem'' (sample_styles ''Heading2'')]]
            [Some 70, None] 0 group_header_style,
          Spacer 1 12,
          Table [summary_header,
                 [CText [], CText ''Amal'', CNone, CText ''-''],
                 [CText [], CText ''Badr'', CText ''0100'', CText ''-'']] [] 1 summary_style] =
      Built ''%PDF-1.4 [table][table]%%EOF''"
    by (simp add: sample_engines sample_build_def summary_header_def)
  from group_summary_rows [of bare_env u12
      "[Table [[CText [], CPara ''Group Report: U12'' (sample_styles ''Title'')],
                 [CText [], CPara ''Coach: Hazem'' (sample_styles ''Heading2'')]]
            [Some 70, None] 0 group_header_style,
          Spacer 1 12,
          Table [summary_header,
                 [CText [], CText ''Amal'', CNone, CText ''-''],
                 [CText [], CText ''Badr'', CText ''0100'', CText ''-'']] [] 1 summary_style]"]
    u12_bare_story made built
  show ?thesis by (auto simp: u12_def)
qed
section \<open>Font registration\<close>

lemma register_loop_find:
  "register_loop env st ps =
     (case find (usable env) ps of
        None \<Rightarrow> (''Helvetica'', st)
      | Some p \<Rightarrow> (''ArabicFont'', st\<lparr>registered := (registered st)(''ArabicFont'' \<mapsto> p)\<rparr>))"
proof (induction ps)
  case Nil
  show ?case by simp
next
  case (Cons p ps)
  show ?case
  proof (cases "usable env p")
    case True
    then show ?thesis by (simp add: usable_def)
  next
    case False
    then have "register_loop env st (p # ps) = register_loop env st ps"
      by (cases "path_exists env p"; cases "load_font env p")
         (auto simp: usable_def split: bool.splits)
    with False Cons show ?thesis by simp
  qed
qed

lemma register_twice:
  assumes "register_arabic_font env st = (n, st1)"
  shows "register_arabic_font env st1 = (n, st1)"
proof (cases "registered st ''ArabicFont'' = None")
  case False
  with assms show ?thesis by (auto simp: register_arabic_font_def)
next
  case True
  let ?st' = "st\<lparr>TTFSearchPath := insert (path_join (module_dir env) ''fonts'') (TTFSearchPath st)\<rparr>"
  show ?thesis
  proof (cases "find (usable env) (candidates (module_dir env))")
    case None
    with True assms have "n = ''Helvetica''" "st1 = ?st'"
      by (auto simp: register_arabic_font_def register_loop_find Let_def)
    with True None show ?thesis
      by (simp add: register_arabic_font_def register_loop_find Let_def)
  next
    case (Some p)
    with True assms have "registered st1 ''ArabicFont'' = Some p" "n = ''ArabicFont''"
      by (auto simp: register_arabic_font_def register_loop_find Let_def)
    then show ?thesis by (simp add: register_arabic_font_def)
  qed
qed

lemma register_names:
  "fst (register_arabic_font env st) = ''ArabicFont'' \<or>
   fst (register_arabic_font env st) = ''Helvetica''"
  by (auto simp: register_arabic_font_def register_loop_find Let_def split: option.splits)

text \<open>
  Claim C10. A second call of \<^verbatim>\<open>_register_arabic_font\<close> returns the name the first call
  returned and leaves the registry and the search path as the first call left them. When
  no font is registered yet, the candidates are probed in their fixed order, the two
  bundled fonts first, then the Windows, Linux and macOS directories: the first candidate
  that exists and loads is registered as \<^verbatim>\<open>ArabicFont\<close>, and when there is none the
  result is \<^verbatim>\<open>Helvetica\<close>.
\<close>

theorem register_arabic_font_idempotent:
  "(\<exists>n st1. register_arabic_font env st = (n, st1) \<and>
            register_arabic_font env st1 = (n, st1) \<and>
            (n = ''ArabicFont'' \<or> n = ''Helvetica'')) \<and>
   (registered st ''ArabicFont'' = None \<longrightarrow>
      fst (register_arabic_font env st) =
        (case find (usable env) (candidates (module_dir env)) of
           None \<Rightarrow> ''Helvetica'' | Some p \<Rightarrow> ''ArabicFont'') \<and>
      registered (snd (register_arabic_font env st)) ''ArabicFont'' =
        find (usable env) (candidates (module_dir env))) \<and>
   take 2 (candidates base) = local_fonts base \<and>
   drop 2 (candidates base) = windows_candidates @ linux_candidates @ mac_candidates"
proof -
  obtain n st1 where r: "register_arabic_font env st = (n, st1)"
    by (cases "register_arabic_font env st")
  have "register_arabic_font env st1 = (n, st1)"
    using r by (rule register_twice)
  moreover have "n = ''ArabicFont'' \<or> n = ''Helvetica''"
    using register_names [of env st] r by simp
  moreover have "registered st ''ArabicFont'' = None \<longrightarrow>
      fst (register_arabic_font env st) =
        (case find (usable env) (candidates (module_dir env)) of
           None \<Rightarrow> ''Helvetica'' | Some p \<Rightarrow> ''ArabicFont'') \<and>
      registered (snd (register_arabic_font env st)) ''ArabicFont'' =
        find (usable env) (candidates (module_dir env))"
    by (auto simp: register_arabic_font_def register_loop_find Let_def split: option.splits)
  moreover have "take 2 (candidates base) = local_fonts base"
    by (simp add: candidates_def local_fonts_def)
  moreover have "drop 2 (candidates base) = windows_candidates @ linux_candidates @ mac_candidates"
    by (simp add: candidates_def local_fonts_def)
  ultimately show ?thesis using r by blast
qed

lemma find_bare: "find (usable bare_env) (candidates (module_dir bare_env)) = None"
  by (simp add: usable_def bare_env_def sample_env_def candidates_def local_fonts_def
      windows_candidates_def linux_candidates_def mac_candidates_def)

lemma find_font:
  "find (usable font_env) (candidates (module_dir font_env)) =
     Some ''/usr/share/fonts/truetype/dejavu/DejaVuSans.ttf''"
  by (simp add: usable_def font_env_def sample_env_def candidates_def local_fonts_def
      windows_candidates_def linux_candidates_def mac_candidates_def path_join_def bs2_def)

theorem register_arabic_font_idempotent_witness:
  "fst (register_arabic_font bare_env fresh) = ''Helvetica'' \<and>
   fst (register_arabic_font font_env fresh) = ''ArabicFont'' \<and>
   registered (snd (register_arabic_font font_env fresh)) ''ArabicFont'' =
     Some ''/usr/share/fonts/truetype/dejavu/DejaVuSans.ttf''"
proof -
  have f: "registered fresh ''ArabicFont'' = None"
    by (simp add: fresh_def)
  from register_arabic_font_idempotent [of bare_env fresh] f find_bare
  have "fst (register_arabic_font bare_env fresh) = ''Helvetica''" by simp
  moreover from register_arabic_font_idempotent [of font_env fresh] f find_font
  have "fst (register_arabic_font font_env fresh) = ''ArabicFont'' \<and>
     registered (snd (register_arabic_font font_env fresh)) ''ArabicFont'' =
       Some ''/usr/share/fonts/truetype/dejavu/DejaVuSans.ttf''" by simp
  ultimately show ?thesis by simp
qed

section \<open>Bilingual labels\<close>

lemma SKILL_items_nonempty: "list_all (\<lambda>kv. snd kv \<noteq> []) SKILL_TRANSLATIONS_AR_items"
  by (simp add: SKILL_TRANSLATIONS_AR_items_def)

lemma SKILL_truthy: "SKILL_TRANSLATIONS_AR label = Some tr \<Longrightarrow> tr \<noteq> []"
  using SKILL_items_nonempty
  by (auto simp: SKILL_TRANSLATIONS_AR_def list_all_iff dest!: map_of_SomeD)

lemma sublist_mid: "sublist xs (a @ xs @ b)"
  unfolding sublist_def by blast

lemma or_register_given: "n \<noteq> [] \<Longrightarrow> or_register env st (Some n) = (n, st)"
  by (simp add: or_register_def)

text \<open>
  Claim C7, as the code has it. For a label of the translation table, the three renderers
  return a text that holds the English label and the translation: \<^verbatim>\<open>with_translation_text\<close>
  and \<^verbatim>\<open>with_translation_html\<close> the shaped translation, \<^verbatim>\<open>with_translation\<close> the
  translation as the table has it. For a label that is not in the table,
  \<^verbatim>\<open>with_translation_text\<close> and \<^verbatim>\<open>with_translation\<close> return the label itself, and
  \<^verbatim>\<open>with_translation_html\<close> returns the label inside one font element, with no Arabic part.
\<close>

theorem bilingual_labels:
  "(SKILL_TRANSLATIONS_AR label = Some tr \<longrightarrow>
      with_translation_text env label = label @ '' ('' @ shape_arabic env tr @ '')'' \<and>
      sublist label (with_translation_text env label) \<and>
      sublist (shape_arabic env tr) (with_translation_text env label) \<and>
      sublist label (fst (with_translation_html env st label english_font arabic_font)) \<and>
      sublist (shape_arabic env tr)
        (fst (with_translation_html env st label english_font arabic_font)) \<and>
      sublist label (with_translation label) \<and>
      sublist tr (with_translation label)) \<and>
   (SKILL_TRANSLATIONS_AR label = None \<longrightarrow>
      with_translation_text env label = label \<and>
      with_translation label = label \<and>
      fst (with_translation_html env st label english_font arabic_font) =
        font_open english_font @ label @ font_close)"
proof (intro conjI impI)
  assume tr: "SKILL_TRANSLATIONS_AR label = Some tr"
  then have ne: "tr \<noteq> []" by (rule SKILL_truthy)
  show shaped: "with_translation_text env label = label @ '' ('' @ shape_arabic env tr @ '')''"
    using tr ne by (simp add: with_translation_text_def)
  show "sublist label (with_translation_text env label)"
    unfolding shaped by simp
  show "sublist (shape_arabic env tr) (with_translation_text env label)"
    unfolding shaped using sublist_mid [of "shape_arabic env tr" "label @ '' (''" "'')''"] by simp
  obtain ar st1 where reg: "or_register env st arabic_font = (ar, st1)"
    by (cases "or_register env st arabic_font")
  have html: "fst (with_translation_html env st label english_font arabic_font) =
      font_open english_font @ label @ font_close @ '' - '' @ font_open ar @
      shape_arabic env tr @ font_close"
    using tr ne reg by (simp add: with_translation_html_def)
  show "sublist label (fst (with_translation_html env st label english_font arabic_font))"
    unfolding html by (rule sublist_mid)
  show "sublist (shape_arabic env tr)
      (fst (with_translation_html env st label english_font arabic_font))"
    unfolding html
    using sublist_mid [of "shape_arabic env tr"
        "font_open english_font @ label @ font_close @ '' - '' @ font_open ar" font_close]
    by simp
  have plain: "with_translation label = label @ '' ('' @ tr @ '')''"
    using tr ne by (simp add: with_translation_def)
  show "sublist label (with_translation label)"
    unfolding plain by simp
  show "sublist tr (with_translation label)"
    unfolding plain using sublist_mid [of tr "label @ '' (''" "'')''"] by simp
next
  assume none: "SKILL_TRANSLATIONS_AR label = None"
  show "with_translation_text env label = label"
    using none by (simp add: with_translation_text_def)
  show "with_translation label = label"
    using none by (simp add: with_translation_def)
  show "fst (with_translation_html env st label english_font arabic_font) =
      font_open english_font @ label @ font_close"
    using none by (simp add: with_translation_html_def split: prod.splits)
qed

lemma speed_translation:
  "SKILL_TRANSLATIONS_AR ''Speed'' =
     Some [CHR 0xD8, CHR 0xA7, CHR 0xD9, CHR 0x84, CHR 0xD8, CHR 0xB3, CHR 0xD8, CHR 0xB1,
           CHR 0xD8, CHR 0xB9, CHR 0xD8, CHR 0xA9]"
  by (simp add: SKILL_TRANSLATIONS_AR_def SKILL_TRANSLATIONS_AR_items_def)

lemma juggling_translation: "SKILL_TRANSLATIONS_AR ''Juggling'' = None"
  by (simp add: SKILL_TRANSLATIONS_AR_def SKILL_TRANSLATIONS_AR_items_def)

theorem bilingual_labels_witness:
  "with_translation_text sample_env ''Speed'' =
     ''Speed ('' @
     [CHR 0xD8, CHR 0xA7, CHR 0xD9, CHR 0x84, CHR 0xD8, CHR 0xB3, CHR 0xD8, CHR 0xB1,
      CHR 0xD8, CHR 0xB9, CHR 0xD8, CHR 0xA9] @ '')'' \<and>
   with_translation_text sample_env ''Juggling'' = ''Juggling'' \<and>
   fst (with_translation_html sample_env fresh ''Juggling'' ''Helvetica'' (Some ''ArabicFont'')) =
     font_open ''Helvetica'' @ ''Juggling'' @ font_close"
proof -
  have shape: "shape_arabic sample_env s = s" for s
    by (simp add: shape_arabic_def sample_env_def)
  from bilingual_labels [of "''Speed''" _ sample_env fresh "''Helvetica''" "Some ''ArabicFont''"]
    speed_translation
  have "with_translation_text sample_env ''Speed'' =
     ''Speed ('' @
     [CHR 0xD8, CHR 0xA7, CHR 0xD9, CHR 0x84, CHR 0xD8, CHR 0xB3, CHR 0xD8, CHR 0xB1,
      CHR 0xD8, CHR 0xB9, CHR 0xD8, CHR 0xA9] @ '')''"
    by (simp add: shape)
  moreover from bilingual_labels [of "''Juggling''" _ sample_env fresh "''Helvetica''"
      "Some ''ArabicFont''"] juggling_translation
  have "with_translation_text sample_env ''Juggling'' = ''Juggling'' \<and>
     fst (with_translation_html sample_env fresh ''Juggling'' ''Helvetica'' (Some ''ArabicFont'')) =
       font_open ''Helvetica'' @ ''Juggling'' @ font_close"
    by simp
  ultimately show ?thesis by simp
qed

text \<open>The claim C7 as the specification words it fails twice. For a label that is not in
  the table \<^verbatim>\<open>with_translation_html\<close> does not return the label alone, and where the
  shaping package changes the text, \<^verbatim>\<open>with_translation\<close> does not hold the shaped
  translation of a label of the table.\<close>

theorem bilingual_labels_counterexample:
  "SKILL_TRANSLATIONS_AR ''Juggling'' = None \<and>
   fst (with_translation_html sample_env fresh ''Juggling'' ''Helvetica'' (Some ''ArabicFont'')) \<noteq>
     ''Juggling'' \<and>
   SKILL_TRANSLATIONS_AR ''Speed'' \<noteq> None \<and>
   \<not> sublist (shape_arabic mirror_env (the (SKILL_TRANSLATIONS_AR ''Speed'')))
       (with_translation ''Speed'')"
proof -
  have "fst (with_translation_html sample_env fresh ''Juggling'' ''Helvetica'' (Some ''ArabicFont''))
      = font_open ''Helvetica'' @ ''Juggling'' @ font_close"
    using juggling_translation
    by (simp add: with_translation_html_def or_register_def)
  then have "fst (with_translation_html sample_env fresh ''Juggling'' ''Helvetica''
      (Some ''ArabicFont'')) \<noteq> ''Juggling''"
    by (simp add: font_open_def font_close_def)
  moreover have "\<not> sublist (shape_arabic mirror_env (the (SKILL_TRANSLATIONS_AR ''Speed'')))
       (with_translation ''Speed'')"
    by (simp add: speed_translation with_translation_def shape_arabic_def mirror_env_def
        sample_env_def sublist_code)
  ultimately show ?thesis
    using juggling_translation speed_translation by simp
qed

section \<open>The rating of an average\<close>

lemma rating_label_of_label:
  "rating_label (VStr ''Bad'') = unknown_marker"
  "rating_label (VStr ''Not bad'') = unknown_marker"
  "rating_label (VStr ''Good'') = unknown_marker"
  "rating_label (VStr ''Very Good'') = unknown_marker"
  "rating_label (VStr ''Excellent'') = unknown_marker"
  "rating_label (VStr unknown_marker) = unknown_marker"
  by (simp_all add: rating_label_def int_of_str_def strip_def is_space_def is_digit_def
      unknown_marker_def)

lemma RATING_TRANSLATIONS_AR_unknown: "RATING_TRANSLATIONS_AR unknown_marker = None"
  by (simp add: RATING_TRANSLATIONS_AR_def RATING_TRANSLATIONS_AR_items_def unknown_marker_def)

lemma from_average_cases:
  "rating_label_from_average avg
     \<in> {''Bad'', ''Not bad'', ''Good'', ''Very Good'', ''Excellent'', unknown_marker}"
proof (cases avg)
  case None
  then show ?thesis by (simp add: rating_label_from_average_def)
next
  case (Some a)
  show ?thesis
  proof (cases "py_round a")
    case (Inl e)
    with Some show ?thesis by (simp add: rating_label_from_average_def)
  next
    case (Inr r)
    have "rating_label (VInt (max 1 (min 5 r)))
            \<in> {''Bad'', ''Not bad'', ''Good'', ''Very Good'', ''Excellent''}"
      by (rule rating_label_in_range) auto
    with Some Inr show ?thesis by (auto simp: rating_label_from_average_def)
  qed
qed

lemma rating_bilingual_html_label:
  assumes "l \<in> {''Bad'', ''Not bad'', ''Good'', ''Very Good'', ''Excellent'', unknown_marker}"
  shows "rating_bilingual_html env st (VStr l) = (unknown_html, st)"
  using assms rating_label_of_label
  by (auto simp: rating_bilingual_html_def RATING_TRANSLATIONS_AR_unknown unknown_html_def)

lemma from_average_html: "rating_bilingual_html_from_average env st avg = (unknown_html, st)"
  unfolding rating_bilingual_html_from_average_def
  by (rule rating_bilingual_html_label) (rule from_average_cases)

lemma sublist_across:
  assumes "c \<notin> set xs"
  shows "sublist xs (ys @ c # zs) \<longleftrightarrow> sublist xs ys \<or> sublist xs zs"
proof
  assume "sublist xs (ys @ c # zs)"
  then consider "sublist xs ys" | "sublist xs (c # zs)"
    | xs1 xs2 where "xs = xs1 @ xs2" "suffix xs1 ys" "prefix xs2 (c # zs)"
    by (auto simp: sublist_append)
  then show "sublist xs ys \<or> sublist xs zs"
  proof cases
    case 1
    then show ?thesis by simp
  next
    case 2
    then have "prefix xs (c # zs) \<or> sublist xs zs" by (simp add: sublist_Cons_right)
    moreover have "prefix xs (c # zs) \<Longrightarrow> xs = []"
      using assms by (cases xs) auto
    ultimately show ?thesis by auto
  next
    case 3
    have "xs2 = []" using 3(1,3) assms by (cases xs2) auto
    with 3 have "suffix xs ys" by simp
    then obtain ps where "ys = ps @ xs @ []" by (auto simp: suffix_def)
    then have "sublist xs ys" unfolding sublist_def by blast
    then show ?thesis by simp
  qed
next
  assume "sublist xs ys \<or> sublist xs zs"
  then show "sublist xs (ys @ c # zs)"
  proof
    assume "sublist xs ys"
    then show ?thesis by (auto simp: sublist_append)
  next
    assume "sublist xs zs"
    then have "sublist xs (c # zs)" by (simp add: sublist_Cons_right)
    then show ?thesis by (auto simp: sublist_append)
  qed
qed

lemma no_label_in_unknown:
  "\<not> sublist ''Bad'' ('' '' @ unknown_html)" "\<not> sublist ''Not bad'' ('' '' @ unknown_html)"
  "\<not> sublist ''Good'' ('' '' @ unknown_html)" "\<not> sublist ''Very Good'' ('' '' @ unknown_html)"
  "\<not> sublist ''Excellent'' ('' '' @ unknown_html)"
  by (simp_all add: unknown_html_def font_open_def font_close_def unknown_marker_def sublist_code)

lemma label_in_line:
  assumes "l \<in> {''Bad'', ''Not bad'', ''Good'', ''Very Good'', ''Excellent''}"
  shows "sublist l (title @ '': '' @ unknown_html) = sublist l title"
proof -
  have "CHR '':'' \<notin> set l" using assms by auto
  then have "sublist l (title @ CHR '':'' # ('' '' @ unknown_html)) =
      (sublist l title \<or> sublist l ('' '' @ unknown_html))"
    by (rule sublist_across)
  moreover have "\<not> sublist l ('' '' @ unknown_html)"
    using assms no_label_in_unknown by auto
  ultimately show ?thesis by simp
qed

text \<open>
  Claim C3. For every average that is not \<^verbatim>\<open>None\<close>, \<^verbatim>\<open>rating_bilingual_html_from_average\<close>
  renders the dash: it hands the label text of \<^verbatim>\<open>rating_label_from_average\<close> to
  \<^verbatim>\<open>rating_bilingual_html\<close>, whose \<^verbatim>\<open>rating_label\<close> cannot read a label as an integer.
  The markup it returns holds none of the five labels, and the Average Level line is the
  section title, a colon and that markup: a label stands in the line only if it stands in
  the title, whatever the average.
\<close>

theorem average_rating_renders_unknown:
  "rating_bilingual_html_from_average env st (Some a) = (unknown_html, st) \<and>
   unknown_html = font_open ''Helvetica'' @ unknown_marker @ font_close \<and>
   \<not> sublist ''Bad'' unknown_html \<and> \<not> sublist ''Not bad'' unknown_html \<and>
   \<not> sublist ''Good'' unknown_html \<and> \<not> sublist ''Very Good'' unknown_html \<and>
   \<not> sublist ''Excellent'' unknown_html \<and>
   (\<exists>title st1.
      with_section_title_html env st ''Average Level'' (fontName small_h3) (Some arabic_font) =
        (title, st1) \<and>
      average_level_html env st small_h3 arabic_font (Some a) =
        (title @ '': '' @ unknown_html, st1) \<and>
      list_all (\<lambda>l. sublist l (title @ '': '' @ unknown_html) = sublist l title)
        [''Bad'', ''Not bad'', ''Good'', ''Very Good'', ''Excellent''])"
proof -
  obtain title st1 where t:
    "with_section_title_html env st ''Average Level'' (fontName small_h3) (Some arabic_font) =
       (title, st1)"
    by (cases "with_section_title_html env st ''Average Level'' (fontName small_h3)
        (Some arabic_font)")
  have "average_level_html env st small_h3 arabic_font (Some a) =
      (title @ '': '' @ unknown_html, st1)"
    by (simp add: average_level_html_def t from_average_html)
  moreover have "list_all (\<lambda>l. sublist l (title @ '': '' @ unknown_html) = sublist l title)
      [''Bad'', ''Not bad'', ''Good'', ''Very Good'', ''Excellent'']"
    using label_in_line [of _ title] by simp
  moreover have "\<not> sublist ''Bad'' unknown_html" "\<not> sublist ''Not bad'' unknown_html"
    "\<not> sublist ''Good'' unknown_html" "\<not> sublist ''Very Good'' unknown_html"
    "\<not> sublist ''Excellent'' unknown_html"
    by (simp_all add: unknown_html_def font_open_def font_close_def unknown_marker_def
        sublist_code)
  ultimately show ?thesis
    using t from_average_html [of env st "Some a"] by (simp add: unknown_html_def)
qed

text \<open>An average of 3 has the label \<^verbatim>\<open>Good\<close>, and the line written for it does not
  hold that label.\<close>

theorem average_rating_renders_unknown_witness:
  "rating_label_from_average (Some (Finite 3)) = ''Good'' \<and>
   fst (average_level_html sample_env fresh (sample_styles ''Heading3'') ''Helvetica''
         (Some (Finite 3))) =
     font_open ''Helvetica-BoldOblique'' @ ''Average Level'' @ font_close @ '' / '' @
     font_open ''Helvetica'' @ the (SECTION_TRANSLATIONS_AR ''Average Level'') @ font_close @
     '': '' @ unknown_html \<and>
   \<not> sublist ''Good''
       (fst (average_level_html sample_env fresh (sample_styles ''Heading3'') ''Helvetica''
              (Some (Finite 3))))"
proof -
  have good: "rating_label_from_average (Some (Finite 3)) = ''Good''"
    by (simp add: rating_label_from_average_def round_half_even_def rating_labels_cases)
  have title: "with_section_title_html sample_env fresh ''Average Level''
      (fontName (sample_styles ''Heading3'')) (Some ''Helvetica'') =
      (font_open ''Helvetica-BoldOblique'' @ ''Average Level'' @ font_close @ '' / '' @
       font_open ''Helvetica'' @ the (SECTION_TRANSLATIONS_AR ''Average Level'') @ font_close,
       fresh)"
    by (simp add: with_section_title_html_def or_register_def sample_styles_def
        SECTION_TRANSLATIONS_AR_def SECTION_TRANSLATIONS_AR_items_def shape_arabic_def
        sample_env_def)
  have clean: "\<not> sublist ''Good''
      (font_open ''Helvetica-BoldOblique'' @ ''Average Level'' @ font_close @ '' / '' @
       font_open ''Helvetica'' @ the (SECTION_TRANSLATIONS_AR ''Average Level'') @ font_close)"
    by (simp add: font_open_def font_close_def SECTION_TRANSLATIONS_AR_def
        SECTION_TRANSLATIONS_AR_items_def sublist_code)
  from average_rating_renders_unknown [of sample_env fresh "Finite 3"
      "sample_styles ''Heading3''" "''Helvetica''"] title clean good
  show ?thesis by simp
qed

section \<open>The story of the player report\<close>

lemma is_rating_table_is_table: "is_rating_table f \<Longrightarrow> is_table f"
  by (cases f rule: is_rating_table.cases) simp_all

lemma no_table_no_rating_table: "filter is_table fs = [] \<Longrightarrow> filter is_rating_table fs = []"
  by (auto simp: filter_empty_conv dest: is_rating_table_is_table)

text \<open>The closing headings hold no table, however many of them were appended before a
  paragraph was refused.\<close>

lemma unshaped_headings_plain:
  assumes "unshaped_headings env h = Inr fs"
  shows "filter is_table fs = [] \<and> length fs = 4"
  using assms
  by (auto simp: unshaped_headings_def bind_def mk_paragraph_def split: option.splits)

lemma closing_headings_plain:
  assumes "closing_headings env h = Inr closing"
  shows "filter is_table closing = [] \<and> length closing \<in> {4, 5, 7}"
proof (cases "mk_paragraph env (shape_arabic env coach_opinion_ar) h")
  case (Inl e)
  with assms obtain again where a: "unshaped_headings env h = Inr again"
    "closing = [Spacer 1 10] @ again"
    by (auto simp: closing_headings_def bind_def split: sum.splits)
  from unshaped_headings_plain [OF a(1)] a(2) show ?thesis by simp
next
  case (Inr h1)
  then have h1: "h1 = Paragraph (shape_arabic env coach_opinion_ar) h"
    by (simp add: mk_paragraph_cases)
  show ?thesis
  proof (cases "mk_paragraph env (shape_arabic env needs_development_ar) h")
    case (Inl e)
    with assms Inr obtain again where a: "unshaped_headings env h = Inr again"
      "closing = [Spacer 1 10, h1, Spacer 1 6] @ again"
      by (auto simp: closing_headings_def bind_def split: sum.splits)
    from unshaped_headings_plain [OF a(1)] a(2) h1 show ?thesis by simp
  next
    case (Inr h2)
    then have "h2 = Paragraph (shape_arabic env needs_development_ar) h"
      by (simp add: mk_paragraph_cases)
    with assms Inr \<open>mk_paragraph env (shape_arabic env coach_opinion_ar) h = Inr h1\<close> h1
    show ?thesis by (auto simp: closing_headings_def)
  qed
qed

text \<open>The parts of a story that has been made: the header table, a spacer, the body that
  depends on the latest evaluation, and the closing headings.\<close>

lemma player_story_parts:
  assumes "player_story env st p = Inr (story, st2)"
  shows "\<exists>header body closing ev st1 h3 ns als af heading.
           latest_evaluation p = Inr ev \<and>
           report_body env st1 h3 ns als af ev = Inr (body, st2) \<and>
           closing_headings env heading = Inr closing \<and>
           is_table header \<and> \<not> is_rating_table header \<and>
           story = [header, Spacer 1 8] @ body @ closing"
proof -
  obtain af st1 where reg: "register_arabic_font env st = (af, st1)"
    by (cases "register_arabic_font env st")
  from assms obtain title details img logo ev body closing h3 ns als heading where parts:
    "latest_evaluation p = Inr ev" "report_body env st1 h3 ns als af ev = Inr (body, st2)"
    "closing_headings env heading = Inr closing"
    "story = [Table [[image_cell logo, title, image_cell img], [CText [], details, CText []]]
                [Some 70, None, Some 110] 0 player_header_style, Spacer 1 8] @ body @ closing"
    by (auto simp: player_story_def Let_def reg bind_def split: sum.splits prod.splits)
  let ?header = "Table [[image_cell logo, title, image_cell img], [CText [], details, CText []]]
                [Some 70, None, Some 110] 0 player_header_style"
  have "is_table ?header" "\<not> is_rating_table ?header"
    by (simp_all add: rating_header_def)
  with parts show ?thesis by blast
qed

lemma report_body_none:
  assumes "report_body env st h3 ns als af None = Inr (body, st2)"
  shows "body = [Paragraph ''No evaluation available.'' (styles env ''Normal'')] \<and> st2 = st"
  using assms by (auto simp: report_body_def bind_def mk_paragraph_def split: option.splits)

text \<open>The story of a player without evaluation, when every paragraph in it is accepted.\<close>

lemma no_evaluation_story:
  assumes "register_arabic_font env st = (af, st1)"
    and "latest_evaluation p = Inr None"
    and "photo_image env (photo p) 100 100 = Inr (img, tried)"
    and "logo_image env 60 60 = Inr logo"
    and "py_str (age p) = Inr a"
    and "\<And>sty. paragraph_ctor env ''Player Report'' sty = None"
    and "\<And>sty. paragraph_ctor env
           (join ''<br/>''
              ([''Name: '' @ name p, ''Group: '' @ group_name p, ''Age: '' @ a] @
               (if truthy (phone p) then [''Phone: '' @ the (phone p)] else []))) sty = None"
    and "\<And>sty. paragraph_ctor env ''No evaluation available.'' sty = None"
    and "\<And>sty. paragraph_ctor env (shape_arabic env coach_opinion_ar) sty = None"
    and "\<And>sty. paragraph_ctor env (shape_arabic env needs_development_ar) sty = None"
  shows "\<exists>t1 s1 t2 s2 heading.
     player_story env st p =
       Inr ([Table [[image_cell logo, CPara t1 s1, image_cell img],
                    [CText [], CPara t2 s2, CText []]]
               [Some 70, None, Some 110] 0 player_header_style,
             Spacer 1 8,
             Paragraph ''No evaluation available.'' (styles env ''Normal''),
             Spacer 1 10,
             Paragraph (shape_arabic env coach_opinion_ar) heading,
             Spacer 1 6,
             Paragraph (shape_arabic env needs_development_ar) heading], st1)"
  using assms
  by (simp add: player_story_def bind_def Let_def mk_cell_def mk_paragraph_def report_body_def
      closing_headings_def)

text \<open>When that story is made: the title, the details and the placeholder are accepted by
  the markup parser, the age has a text, resolving the photo returns, and the closing
  headings are made.\<close>

lemma no_evaluation_story_made:
  assumes "latest_evaluation p = Inr None"
  shows "returns (player_story env st p) =
     (paragraph_ctor env ''Player Report''
        ((clone (styles env ''Title'') ''SmallTitle'')\<lparr>fontSize := 16, leading := 18\<rparr>) = None \<and>
      (\<exists>a. py_str (age p) = Inr a \<and>
           paragraph_ctor env
             (join ''<br/>''
                ([''Name: '' @ name p, ''Group: '' @ group_name p, ''Age: '' @ a] @
                 (if truthy (phone p) then [''Phone: '' @ the (phone p)] else [])))
             ((clone (styles env ''Normal'') ''NormalSmall'')\<lparr>fontSize := 9, leading := 11\<rparr>) =
           None) \<and>
      returns (photo_image env (photo p) 100 100) \<and>
      paragraph_ctor env ''No evaluation available.'' (styles env ''Normal'') = None \<and>
      returns (closing_headings env
        ((clone
           ((clone ((clone (styles env ''Heading3'') ''SmallH3'')\<lparr>fontSize := 10, leading := 12\<rparr>)
              ''SmallH3Arabic'')\<lparr>fontName := fst (register_arabic_font env st)\<rparr>)
           ''ArabicRightHeading'')\<lparr>alignment := TA_RIGHT\<rparr>)))"
proof -
  obtain logo where logo: "logo_image env 60 60 = Inr logo"
    using logo_image_total by blast
  obtain af st1 where reg: "register_arabic_font env st = (af, st1)"
    by (cases "register_arabic_font env st")
  show ?thesis
    by (cases "py_str (age p)"; cases "photo_image env (photo p) 100 100";
        cases "closing_headings env
        ((clone
           ((clone ((clone (styles env ''Heading3'') ''SmallH3'')\<lparr>fontSize := 10, leading := 12\<rparr>)
              ''SmallH3Arabic'')\<lparr>fontName := af\<rparr>)
           ''ArabicRightHeading'')\<lparr>alignment := TA_RIGHT\<rparr>)")
       (auto simp: player_story_def bind_def Let_def mk_cell_def mk_paragraph_def report_body_def
          logo reg assms split: option.splits)
qed

text \<open>
  Claim C8, as the code has it. For a player with no evaluation, whenever the story of the
  report is made, it is the header table, a spacer, the paragraph
  \<^verbatim>\<open>No evaluation available.\<close> and the closing headings: its only table is the header, so
  it holds none of the rating tables. When the layout engine builds this story,
  \<^verbatim>\<open>build_player_report\<close> returns the bytes of that document, which are not empty for an
  engine that never builds an empty document.
\<close>

theorem no_evaluation_report:
  assumes "evaluations p = Some (Inr [])"
    and "player_story env st p = Inr (story, st1)"
  shows "\<exists>header closing.
     story = [header, Spacer 1 8,
              Paragraph ''No evaluation available.'' (styles env ''Normal'')] @ closing \<and>
     filter is_table story = [header] \<and>
     filter is_rating_table story = [] \<and>
     (\<forall>b. doc_build env player_template story = Built b \<longrightarrow>
          build_player_report env st p = Inr (b, st1) \<and> (never_empty env \<longrightarrow> b \<noteq> []))"
proof -
  have none: "latest_evaluation p = Inr None"
    using assms(1) by (rule latest_evaluation_empty)
  obtain header body closing ev st0 h3 ns als af heading where parts:
    "latest_evaluation p = Inr ev" "report_body env st0 h3 ns als af ev = Inr (body, st1)"
    "closing_headings env heading = Inr closing" "is_table header" "\<not> is_rating_table header"
    "story = [header, Spacer 1 8] @ body @ closing"
    using player_story_parts [OF assms(2)] by blast
  from parts(1) none have "ev = None" by simp
  with parts(2) have body: "body = [Paragraph ''No evaluation available.'' (styles env ''Normal'')]"
    using report_body_none by blast
  have plain: "filter is_table closing = []"
    using closing_headings_plain [OF parts(3)] by simp
  have story: "story = [header, Spacer 1 8,
              Paragraph ''No evaluation available.'' (styles env ''Normal'')] @ closing"
    using parts(6) body by simp
  have tables: "filter is_table story = [header]"
    using story plain parts(4) by simp
  have ratings: "filter is_rating_table story = []"
    using story no_table_no_rating_table [OF plain] parts(5) by simp
  have "build_player_report env st p = Inr (b, st1) \<and> (never_empty env \<longrightarrow> b \<noteq> [])"
    if "doc_build env player_template story = Built b" for b
    using that assms(2)
    by (auto simp: build_player_report_def bind_def doc_build_into_def never_empty_def)
  with story tables ratings show ?thesis by blast
qed

text \<open>A player without photo or evaluation, in a deployment with nothing on disk: the
  engine builds the story, and the document returned holds the placeholder.\<close>

lemma small_age: "py_str (VInt 11) = Inr ''11''"
proof -
  have "(10::int) ^ 2 \<le> 10 ^ max_str_digits"
    by (rule power_increasing) (simp_all add: max_str_digits_def)
  then have "\<not> (10::int) ^ max_str_digits \<le> \<bar>11\<bar>" by simp
  moreover have "str_int 11 = ''11''" by code_simp
  ultimately show ?thesis by simp
qed

lemma amal_parts:
  "latest_evaluation amal = Inr None"
  "photo_image env (photo amal) 100 100 = Inr (None, [])"
  by (simp_all add: latest_evaluation_def try_except_def bind_def photo_image_def amal_def
      no_photo_def)

lemma amal_age: "py_str (age amal) = Inr ''11''"
proof -
  have "age amal = VInt 11"
    by (simp add: amal_def)
  then show ?thesis
    by (simp only: small_age)
qed

lemma bare_logo: "logo_image bare_env 60 60 = Inr None"
  by code_simp

lemma sample_logo:
  "logo_image sample_env 60 60 =
     Inr (Some \<lparr>img_src = FromFile ''/srv/app/core/logo.png'', img_width = 60,
                img_height = 60, hAlign = Some ''LEFT''\<rparr>)"
  by code_simp

lemma sample_parser_plain: "\<not> sublist ''<b>'' t \<Longrightarrow> sample_parser t sty = None"
  by (simp add: sample_parser_def)

lemma plain_texts:
  "\<not> sublist ''<b>'' ''Player Report''" "\<not> sublist ''<b>'' ''No evaluation available.''"
  "\<not> sublist ''<b>'' coach_opinion_ar" "\<not> sublist ''<b>'' needs_development_ar"
  "\<not> sublist ''<b>'' ''Name: Amal<br/>Group: U12<br/>Age: 11''"
  "\<not> sublist ''<b>'' ''Name: Amal''"
  by code_simp+

lemma amal_story:
  "\<exists>story st1. player_story bare_env fresh amal = Inr (story, st1) \<and>
     doc_build bare_env player_template story =
       Built (''%PDF-1.4 [table]No evaluation available.|'' @ coach_opinion_ar @ ''|'' @
              needs_development_ar @ ''|%%EOF'')"
proof -
  obtain af st1 where reg: "register_arabic_font bare_env fresh = (af, st1)"
    by (cases "register_arabic_font bare_env fresh")
  have "\<exists>t1 s1 t2 s2 heading. player_story bare_env fresh amal =
       Inr ([Table [[image_cell None, CPara t1 s1, image_cell None],
                    [CText [], CPara t2 s2, CText []]]
               [Some 70, None, Some 110] 0 player_header_style,
             Spacer 1 8,
             Paragraph ''No evaluation available.'' (styles bare_env ''Normal''),
             Spacer 1 10,
             Paragraph (shape_arabic bare_env coach_opinion_ar) heading,
             Spacer 1 6,
             Paragraph (shape_arabic bare_env needs_development_ar) heading], st1)"
    by (rule no_evaluation_story [OF reg amal_parts(1) amal_parts(2) bare_logo amal_age])
       (simp_all add: sample_engines sample_parser_plain plain_texts amal_def)
  then obtain t1 s1 t2 s2 heading where s: "player_story bare_env fresh amal =
       Inr ([Table [[image_cell None, CPara t1 s1, image_cell None],
                    [CText [], CPara t2 s2, CText []]]
               [Some 70, None, Some 110] 0 player_header_style,
             Spacer 1 8,
             Paragraph ''No evaluation available.'' (styles bare_env ''Normal''),
             Spacer 1 10,
             Paragraph (shape_arabic bare_env coach_opinion_ar) heading,
             Spacer 1 6,
             Paragraph (shape_arabic bare_env needs_development_ar) heading], st1)"
    (is "_ = Inr (?story, _)")
    by blast
  have "doc_build bare_env player_template ?story =
       Built (''%PDF-1.4 [table]No evaluation available.|'' @ coach_opinion_ar @ ''|'' @
              needs_development_ar @ ''|%%EOF'')"
    by (simp add: sample_engines sample_build_def image_cell_def)
  with s show ?thesis by blast
qed

lemma sample_never_empty: "never_empty bare_env" "never_empty sample_env"
  by (simp_all add: never_empty_def sample_engines sample_build_def)

theorem no_evaluation_report_witness:
  "evaluations amal = Some (Inr []) \<and> never_empty bare_env \<and>
   map_sum id fst (build_player_report bare_env fresh amal) =
     Inr (''%PDF-1.4 [table]No evaluation available.|'' @ coach_opinion_ar @ ''|'' @
          needs_development_ar @ ''|%%EOF'')"
proof -
  have ev: "evaluations amal = Some (Inr [])"
    by (simp add: amal_def)
  obtain story st1 where s: "player_story bare_env fresh amal = Inr (story, st1)"
    "doc_build bare_env player_template story =
       Built (''%PDF-1.4 [table]No evaluation available.|'' @ coach_opinion_ar @ ''|'' @
              needs_development_ar @ ''|%%EOF'')"
    using amal_story by blast
  from no_evaluation_report [OF ev s(1)] s(2) ev sample_never_empty(1)
  show ?thesis by auto
qed

text \<open>The story is not made when the details paragraph is refused, or when resolving the
  photo raises: the exception leaves \<^verbatim>\<open>build_player_report\<close>.\<close>

lemma player_story_details_refused:
  assumes "\<And>sty. paragraph_ctor env ''Player Report'' sty = None"
    and "py_str (age p) = Inr a"
    and "\<And>sty. paragraph_ctor env
           (join ''<br/>''
              ([''Name: '' @ name p, ''Group: '' @ group_name p, ''Age: '' @ a] @
               (if truthy (phone p) then [''Phone: '' @ the (phone p)] else []))) sty = Some e"
  shows "player_story env st p = Inl e"
  using assms
  by (simp add: player_story_def bind_def Let_def mk_cell_def split: prod.splits)

lemma player_story_photo_raises:
  assumes "\<And>sty. paragraph_ctor env ''Player Report'' sty = None"
    and "py_str (age p) = Inr a"
    and "\<And>sty. paragraph_ctor env
           (join ''<br/>''
              ([''Name: '' @ name p, ''Group: '' @ group_name p, ''Age: '' @ a] @
               (if truthy (phone p) then [''Phone: '' @ the (phone p)] else []))) sty = None"
    and "photo_image env (photo p) 100 100 = Inl e"
  shows "player_story env st p = Inl e"
  using assms
  by (simp add: player_story_def bind_def Let_def mk_cell_def split: prod.splits)

text \<open>A story whose header shows the logo read from disk: the sample engine cannot
  build it.\<close>

lemma lazy_logo_story:
  "doc_build sample_env tpl
     ([Table ((image_cell (Some \<lparr>img_src = FromFile ''/srv/app/core/logo.png'', img_width = 60,
                img_height = 60, hAlign = Some ''LEFT''\<rparr>) # cells) # rows)
         widths rep sty] @ rest) = Failed OSError []"
  by (simp add: sample_engines sample_build_def image_cell_def)

lemma amal_sample_story:
  "\<exists>story st1. player_story sample_env fresh amal = Inr (story, st1) \<and>
     doc_build sample_env player_template story = Failed OSError []"
proof -
  obtain af st1 where reg: "register_arabic_font sample_env fresh = (af, st1)"
    by (cases "register_arabic_font sample_env fresh")
  have "\<exists>t1 s1 t2 s2 heading. player_story sample_env fresh amal =
       Inr ([Table [[image_cell (Some \<lparr>img_src = FromFile ''/srv/app/core/logo.png'',
                       img_width = 60, img_height = 60, hAlign = Some ''LEFT''\<rparr>),
                     CPara t1 s1, image_cell None],
                    [CText [], CPara t2 s2, CText []]]
               [Some 70, None, Some 110] 0 player_header_style,
             Spacer 1 8,
             Paragraph ''No evaluation available.'' (styles sample_env ''Normal''),
             Spacer 1 10,
             Paragraph (shape_arabic sample_env coach_opinion_ar) heading,
             Spacer 1 6,
             Paragraph (shape_arabic sample_env needs_development_ar) heading], st1)"
    by (rule no_evaluation_story [OF reg amal_parts(1) amal_parts(2) sample_logo amal_age])
       (simp_all add: sample_engines sample_parser_plain plain_texts amal_def)
  then show ?thesis
    using lazy_logo_story by fastforce
qed

lemma amal_fallback:
  "player_fallback_story sample_env amal =
     Inr [Paragraph ''Player Report'' (sample_styles ''Title''), Spacer 1 12,
          Paragraph ''Name: Amal'' (sample_styles ''Normal'')]"
  "doc_build sample_env A4
     [Paragraph ''Player Report'' (sample_styles ''Title''), Spacer 1 12,
      Paragraph ''Name: Amal'' (sample_styles ''Normal'')] =
     Built ''%PDF-1.4 Player Report|Name: Amal|%%EOF''"
  by (simp_all add: player_fallback_story_def mk_paragraph_def bind_def sample_engines
      sample_parser_plain plain_texts amal_def sample_build_def)

lemma amal_sample_report:
  "map_sum id fst (build_player_report sample_env fresh amal) =
     Inr ''%PDF-1.4 Player Report|Name: Amal|%%EOF''"
proof -
  obtain story st1 where s: "player_story sample_env fresh amal = Inr (story, st1)"
    "doc_build sample_env player_template story = Failed OSError []"
    using amal_sample_story by blast
  with amal_fallback show ?thesis
    by (simp add: build_player_report_def bind_def doc_build_into_def)
qed

lemma ali_report: "build_player_report bare_env fresh ali = Inl ValueError"
proof -
  have age: "py_str (age ali) = Inr ''11''"
    using amal_age by (simp add: ali_def amal_def)
  have "sublist ''<b>'' ''Name: <b>Ali<br/>Group: U12<br/>Age: 11''"
    "\<not> sublist ''</b>'' ''Name: <b>Ali<br/>Group: U12<br/>Age: 11''"
    by code_simp+
  then have "player_story bare_env fresh ali = Inl ValueError"
    by (intro player_story_details_refused [OF _ age])
       (simp_all add: sample_engines sample_parser_plain plain_texts sample_parser_def ali_def
          amal_def)
  then show ?thesis
    by (simp add: build_player_report_def bind_def)
qed

text \<open>The claim C8 as the specification words it fails twice. Where the logo is on disk
  when the story is made and unreadable when the document is built, the player without
  evaluation gets the fallback document, which holds only the title and the name. And
  where the name of the player holds markup the parser refuses, the function raises.\<close>

theorem no_evaluation_report_counterexample:
  "evaluations amal = Some (Inr []) \<and>
   map_sum id fst (build_player_report sample_env fresh amal) =
     Inr ''%PDF-1.4 Player Report|Name: Amal|%%EOF'' \<and>
   player_fallback_story sample_env amal =
     Inr [Paragraph ''Player Report'' (sample_styles ''Title''), Spacer 1 12,
          Paragraph ''Name: Amal'' (sample_styles ''Normal'')] \<and>
   doc_build sample_env A4
     [Paragraph ''Player Report'' (sample_styles ''Title''), Spacer 1 12,
      Paragraph ''Name: Amal'' (sample_styles ''Normal'')] =
     Built ''%PDF-1.4 Player Report|Name: Amal|%%EOF'' \<and>
   \<not> sublist ''No evaluation'' ''%PDF-1.4 Player Report|Name: Amal|%%EOF'' \<and>
   evaluations ali = Some (Inr []) \<and>
   build_player_report bare_env fresh ali = Inl ValueError"
proof -
  have "\<not> sublist ''No evaluation'' ''%PDF-1.4 Player Report|Name: Amal|%%EOF''"
    by code_simp
  moreover have "evaluations amal = Some (Inr [])" "evaluations ali = Some (Inr [])"
    by (simp_all add: amal_def ali_def)
  ultimately show ?thesis
    using amal_sample_report amal_fallback ali_report by simp
qed

section \<open>The fallback document\<close>

text \<open>What both reports do when the build of the story raises \<^verbatim>\<open>OSError\<close>: they make a
  fallback story of three flowables, a title, a spacer and one identifying line, with no
  table and so no image, and build it. With a layout engine that writes nothing before
  it raises, a fallback story that is made and a second build that succeeds, the caller
  gets the bytes of the fallback document.\<close>

lemma fallback_story_shape:
  "(group_fallback_story env g = Inr gs \<longrightarrow>
      gs = [Paragraph ''Group Report'' (styles env ''Title''), Spacer 1 12,
            Paragraph (''Group: '' @ gname g) (styles env ''Normal'')] \<and>
      filter is_table gs = []) \<and>
   (player_fallback_story env p = Inr ps \<longrightarrow>
      ps = [Paragraph ''Player Report'' (styles env ''Title''), Spacer 1 12,
            Paragraph (''Name: '' @ name p) (styles env ''Normal'')] \<and>
      filter is_table ps = [])"
  by (auto simp: group_fallback_story_def player_fallback_story_def bind_def mk_paragraph_def
      split: option.splits)

lemma group_fallback_returned:
  assumes "group_story env g = Inr story"
    and "doc_build env A4 story = Failed OSError part"
    and "group_fallback_story env g = Inr fallback"
    and "doc_build env A4 fallback = Built b"
  shows "build_group_report env g = Inr b"
  using assms by (simp add: build_group_report_def bind_def doc_build_into_def)

text \<open>The player report builds its fallback into the buffer of the failed build: what
  that build had written would stay in front of the fallback document.\<close>

lemma player_fallback_buffer:
  assumes "player_story env st p = Inr (story, st1)"
    and "doc_build env player_template story = Failed OSError part"
    and "player_fallback_story env p = Inr fallback"
    and "doc_build env A4 fallback = Built b"
  shows "build_player_report env st p = Inr (part @ b, st1)"
  using assms by (simp add: build_player_report_def bind_def doc_build_into_def)

lemma player_fallback_returned:
  assumes "writes_at_end env"
    and "player_story env st p = Inr (story, st1)"
    and "doc_build env player_template story = Failed OSError part"
    and "player_fallback_story env p = Inr fallback"
    and "doc_build env A4 fallback = Built b"
  shows "build_player_report env st p = Inr (b, st1)"
proof -
  from assms(1,3) have "part = []"
    by (auto simp: writes_at_end_def)
  with player_fallback_buffer [OF assms(2-5)] show ?thesis by simp
qed

text \<open>Neither second build is guarded, and neither is the making of the fallback story:
  an exception raised there reaches the caller.\<close>

lemma group_fallback_refused:
  assumes "group_story env g = Inr story"
    and "doc_build env A4 story = Failed OSError part"
    and "group_fallback_story env g = Inl e"
  shows "build_group_report env g = Inl e"
  using assms by (simp add: build_group_report_def bind_def doc_build_into_def)

lemma player_fallback_refused:
  assumes "player_story env st p = Inr (story, st1)"
    and "doc_build env player_template story = Failed OSError part"
    and "player_fallback_story env p = Inl e"
  shows "build_player_report env st p = Inl e"
  using assms by (simp add: build_player_report_def bind_def doc_build_into_def)

text \<open>The sample engine writes nothing before it raises. With the logo on disk when the
  story is made and unreadable when the document is built, the group report returns the
  fallback document.\<close>

lemma sample_writes_at_end: "writes_at_end sample_env"
  by (simp add: writes_at_end_def sample_engines sample_build_def)

lemma u12_sample_report:
  "build_group_report sample_env u12 = Inr ''%PDF-1.4 Group Report|Group: U12|%%EOF''"
proof -
  have rows: "group_rows sample_env (players u12) =
      Inr [[CText [], CText ''Amal'', CNone, CText ''-''],
           [CImage \<lparr>img_src = FromFile ''/srv/media/photos/a.png'', img_width = 50,
                    img_height = 50, hAlign = None\<rparr>, CText ''Badr'', CText ''0100'',
            CText ''-'']]"
    by code_simp
  have texts: "\<not> sublist ''<b>'' ''Group Report: U12''" "\<not> sublist ''<b>'' ''Coach: Hazem''"
    "\<not> sublist ''<b>'' ''Group Report''" "\<not> sublist ''<b>'' ''Group: U12''"
    by code_simp+
  have "\<exists>cells rows data. group_story sample_env u12 =
      Inr ([Table ((image_cell (Some \<lparr>img_src = FromFile ''/srv/app/core/logo.png'',
                       img_width = 60, img_height = 60, hAlign = Some ''LEFT''\<rparr>) # cells) # rows)
              [Some 70, None] 0 group_header_style] @
           [Spacer 1 12, Table data [] 1 summary_style])"
    using rows
    by (simp add: group_story_def group_data_def bind_def mk_cell_def sample_logo sample_engines
        sample_parser_plain texts u12_def)
  then obtain story where s: "group_story sample_env u12 = Inr story"
    "doc_build sample_env A4 story = Failed OSError []"
    using lazy_logo_story by fastforce
  have "group_fallback_story sample_env u12 =
      Inr [Paragraph ''Group Report'' (sample_styles ''Title''), Spacer 1 12,
           Paragraph ''Group: U12'' (sample_styles ''Normal'')]"
    by (simp add: group_fallback_story_def mk_paragraph_def bind_def sample_engines
        sample_parser_plain texts u12_def)
  moreover have "doc_build sample_env A4
      [Paragraph ''Group Report'' (sample_styles ''Title''), Spacer 1 12,
       Paragraph ''Group: U12'' (sample_styles ''Normal'')] =
      Built ''%PDF-1.4 Group Report|Group: U12|%%EOF''"
    by (simp add: sample_engines sample_build_def)
  ultimately show ?thesis
    using group_fallback_returned [OF s] by simp
qed

text \<open>
  Claim C1. The handler exists so that the caller gets a document and no error, and it
  does not keep that promise for every player. The player below has a name that opens a
  bold tag and a group whose name closes it: the details paragraph of the report is
  accepted, the story is made, and its build raises \<^verbatim>\<open>OSError\<close> on the unreadable logo,
  having written nothing. The handler then makes the line \<^verbatim>\<open>Name: <b>Zed\<close> of the fallback
  story, the parser refuses it, and \<^verbatim>\<open>ValueError\<close> reaches the caller.
\<close>

theorem fallback_raises:
  "map_sum id (\<lambda>r. doc_build sample_env player_template (fst r))
     (player_story sample_env fresh zed) = Inr (Failed OSError []) \<and>
   player_fallback_story sample_env zed = Inl ValueError \<and>
   build_player_report sample_env fresh zed = Inl ValueError"
proof -
  obtain af st1 where reg: "register_arabic_font sample_env fresh = (af, st1)"
    by (cases "register_arabic_font sample_env fresh")
  have age: "py_str (age zed) = Inr ''11''"
    using amal_age by (simp add: zed_def amal_def)
  have parts: "latest_evaluation zed = Inr None"
    "photo_image sample_env (photo zed) 100 100 = Inr (None, [])"
    by (simp_all add: latest_evaluation_def try_except_def bind_def photo_image_def zed_def
        amal_def no_photo_def)
  have closed_tag: "sublist ''</b>'' ''Name: <b>Zed<br/>Group: </b>U12<br/>Age: 11''"
    by code_simp
  have open_tag: "sublist ''<b>'' ''Name: <b>Zed''" "\<not> sublist ''</b>'' ''Name: <b>Zed''"
    by code_simp+
  have "\<exists>t1 s1 t2 s2 heading. player_story sample_env fresh zed =
       Inr ([Table [[image_cell (Some \<lparr>img_src = FromFile ''/srv/app/core/logo.png'',
                       img_width = 60, img_height = 60, hAlign = Some ''LEFT''\<rparr>),
                     CPara t1 s1, image_cell None],
                    [CText [], CPara t2 s2, CText []]]
               [Some 70, None, Some 110] 0 player_header_style,
             Spacer 1 8,
             Paragraph ''No evaluation available.'' (styles sample_env ''Normal''),
             Spacer 1 10,
             Paragraph (shape_arabic sample_env coach_opinion_ar) heading,
             Spacer 1 6,
             Paragraph (shape_arabic sample_env needs_development_ar) heading], st1)"
    using closed_tag
    by (intro no_evaluation_story [OF reg parts sample_logo age])
       (simp_all add: sample_engines sample_parser_plain plain_texts sample_parser_def zed_def
          amal_def)
  then obtain story where s: "player_story sample_env fresh zed = Inr (story, st1)"
    "doc_build sample_env player_template story = Failed OSError []"
    using lazy_logo_story by fastforce
  have refused: "player_fallback_story sample_env zed = Inl ValueError"
    using open_tag
    by (simp add: player_fallback_story_def mk_paragraph_def bind_def sample_engines
        sample_parser_plain plain_texts sample_parser_def zed_def amal_def)
  from player_fallback_refused [OF s refused] s refused show ?thesis by simp
qed

section \<open>A photo on a storage without local paths\<close>

lemma u14_report: "build_group_report sample_env u14 = Inl NotImplementedError"
proof -
  have texts: "\<not> sublist ''<b>'' ''Group Report: U14''" "\<not> sublist ''<b>'' ''Coach: Hazem''"
    by code_simp+
  have "group_row sample_env dina = Inl NotImplementedError"
    by (simp add: group_row_def bind_def dina_def amal_def remote_photo_raises)
  then have "group_story sample_env u14 = Inl NotImplementedError"
    by (simp add: group_story_def group_data_def bind_def mk_cell_def sample_logo sample_engines
        sample_parser_plain texts u14_def)
  then show ?thesis
    by (simp add: build_group_report_def bind_def)
qed

lemma dina_report: "build_player_report sample_env fresh dina = Inl NotImplementedError"
proof -
  have age: "py_str (age dina) = Inr ''11''"
    using amal_age by (simp add: dina_def amal_def)
  have details: "\<not> sublist ''<b>'' ''Name: Dina<br/>Group: U12<br/>Age: 11''"
    by code_simp
  have photo: "photo_image sample_env (photo dina) 100 100 = Inl NotImplementedError"
    by (simp add: dina_def remote_photo_raises)
  have "player_story sample_env fresh dina = Inl NotImplementedError"
    by (intro player_story_photo_raises [OF _ age _ photo])
       (simp_all add: sample_engines sample_parser_plain plain_texts details dina_def amal_def)
  then show ?thesis
    by (simp add: build_player_report_def bind_def)
qed

text \<open>
  Claim C5. The order of the claim is the order of the code as long as reading the
  attributes \<^verbatim>\<open>path\<close> and \<^verbatim>\<open>url\<close> of the field returns. On a storage that has no local
  paths reading \<^verbatim>\<open>path\<close> raises \<^verbatim>\<open>NotImplementedError\<close>, which the default of \<^verbatim>\<open>getattr\<close>
  does not cover. For the photo below, whose bytes the storage cannot give, the plan of
  the claim goes on to the file under the media root and to the HTTP fetch and ends with
  no image; the code raises at the second stage, and the exception leaves both reports.
\<close>

theorem photo_resolution_raises:
  "photo_image sample_env remote_photo 50 50 = Inl NotImplementedError \<and>
   photo_image sample_env remote_photo 100 100 = Inl NotImplementedError \<and>
   first_success (attempt sample_env remote_photo 50 50) (photo_plan sample_env remote_photo) =
     (None, [Storage, LocalFile ''/srv/media/photos/c.png'',
             Http ''https://academy.example/media/photos/c.png'']) \<and>
   build_group_report sample_env u14 = Inl NotImplementedError \<and>
   build_player_report sample_env fresh dina = Inl NotImplementedError"
  using remote_photo_raises remote_photo_plan u14_report dina_report by simp

section \<open>The player report with an evaluation\<close>

text \<open>With an evaluation the story, when it is made, holds the four rating tables, one
  per category, each with one row per skill below its header row: the absence of rating
  tables is a property of the branch without evaluation.\<close>

lemma rating_rows_length:
  "rating_rows env st ls vs items = Inr (rows, st') \<Longrightarrow> length rows = length items"
proof (induction items arbitrary: st rows st')
  case Nil
  then show ?case by simp
next
  case (Cons item items)
  obtain label v where item: "item = (label, v)" by (cases item)
  from Cons.prems obtain c1 st1 where c1: "with_translation_para env st label ls = Inr (c1, st1)"
    by (cases "with_translation_para env st label ls") (auto simp: item bind_def)
  obtain html st2 where h: "rating_bilingual_html env st1 v = (html, st2)"
    by (cases "rating_bilingual_html env st1 v")
  from Cons.prems obtain c2 where c2: "mk_cell env html vs = Inr c2"
    by (cases "mk_cell env html vs") (auto simp: item c1 h bind_def)
  from Cons.prems obtain rest st3 where r: "rating_rows env st2 ls vs items = Inr (rest, st3)"
    by (cases "rating_rows env st2 ls vs items") (auto simp: item c1 h c2 bind_def)
  from Cons.prems have "rows = [c1, c2] # rest"
    by (simp add: item c1 h c2 r bind_def)
  moreover have "length rest = length items"
    using r by (rule Cons.IH)
  ultimately show ?case by simp
qed

lemma rating_section_shape:
  assumes "rating_section env st h3 ns als af title col items = Inr (fs, st2)"
  shows "\<exists>t rows.
     fs = [Paragraph t h3, Table ([CText col, CText ''Rating''] # rows) [] 1 rating_table_style,
           Spacer 1 6] \<and>
     length rows = length items"
proof -
  obtain t st1 where t: "with_section_title_html env st title (fontName h3) (Some af) = (t, st1)"
    by (cases "with_section_title_html env st title (fontName h3) (Some af)")
  from assms obtain heading where heading: "mk_paragraph env t h3 = Inr heading"
    by (cases "mk_paragraph env t h3") (auto simp: rating_section_def t bind_def)
  from assms obtain rows st3 where r: "rating_rows env st1 als ns items = Inr (rows, st3)"
    by (cases "rating_rows env st1 als ns items") (auto simp: rating_section_def t heading bind_def)
  have "length rows = length items"
    using r by (rule rating_rows_length)
  moreover have "heading = Paragraph t h3"
    using heading by (simp add: mk_paragraph_cases)
  ultimately show ?thesis
    using assms by (auto simp: rating_section_def t heading r bind_def)
qed

lemma overall_flowables_plain:
  assumes "overall_flowables env st h3 ns af ev = Inr (fs, st')"
  shows "filter is_table fs = []"
  using assms
  by (auto simp: overall_flowables_def Let_def bind_def mk_paragraph_def
      split: prod.splits option.splits if_splits)

lemma section_tables:
  assumes "fs = [Paragraph t h3, Table ([CText col, CText ''Rating''] # rows) [] 1 sty, Spacer 1 6]"
    and "col = ''Skill'' \<or> col = ''Attribute'' \<or> col = ''Aspect''"
  shows "length (filter is_rating_table fs) = 1 \<and> length (filter is_table fs) = 1"
  using assms by (auto simp: rating_header_def)

lemma evaluation_flowables_tables:
  assumes "evaluation_flowables env st h3 ns als af ev = Inr (fs, st')"
  shows "length (filter is_rating_table fs) = 4 \<and> length (filter is_table fs) = 4"
proof -
  from assms obtain tech st1 phys st2 tu st3 psy st4 overall where parts:
    "rating_section env st h3 ns als af ''Technical Skills'' ''Skill''
       [(''Ball control'', ball_control ev), (''Passing'', passing ev),
        (''Dribbling'', dribbling ev), (''Shooting'', shooting ev),
        (''Using both feet'', using_both_feet ev)] = Inr (tech, st1)"
    "rating_section env st1 h3 ns als af ''Physical Abilities'' ''Attribute''
       [(''Speed'', speed ev), (''Agility'', agility ev),
        (''Endurance'', endurance ev), (''Strength'', strength ev)] = Inr (phys, st2)"
    "rating_section env st2 h3 ns als af ''Technical Understanding'' ''Aspect''
       [(''Positioning'', positioning ev), (''Decision making'', decision_making ev),
        (''Game awareness'', game_awareness ev), (''Teamwork'', teamwork ev)] = Inr (tu, st3)"
    "rating_section env st3 h3 ns als af ''Psychological and Social'' ''Aspect''
       [(''Respect'', respect ev), (''Sportsmanship'', sportsmanship ev),
        (''Confidence'', confidence ev), (''Leadership'', leadership ev)] = Inr (psy, st4)"
    "overall_flowables env st4 h3 ns af ev = Inr (overall, st')"
    "fs = tech @ phys @ tu @ psy @ overall"
    by (auto simp: evaluation_flowables_def bind_def split: sum.splits prod.splits)
  have a: "length (filter is_rating_table tech) = 1 \<and> length (filter is_table tech) = 1"
    using rating_section_shape [OF parts(1)] section_tables by blast
  have b: "length (filter is_rating_table phys) = 1 \<and> length (filter is_table phys) = 1"
    using rating_section_shape [OF parts(2)] section_tables by blast
  have c: "length (filter is_rating_table tu) = 1 \<and> length (filter is_table tu) = 1"
    using rating_section_shape [OF parts(3)] section_tables by blast
  have d: "length (filter is_rating_table psy) = 1 \<and> length (filter is_table psy) = 1"
    using rating_section_shape [OF parts(4)] section_tables by blast
  have e: "filter is_table overall = []" "filter is_rating_table overall = []"
    using overall_flowables_plain [OF parts(5)] no_table_no_rating_table by blast+
  show ?thesis
    using a b c d e by (simp add: parts(6))
qed

lemma evaluated_story_tables:
  assumes "latest_evaluation p = Inr (Some e)" and "player_story env st p = Inr (story, st1)"
  shows "length (filter is_rating_table story) = 4"
proof -
  obtain header body closing ev st0 h3 ns als af heading where parts:
    "latest_evaluation p = Inr ev" "report_body env st0 h3 ns als af ev = Inr (body, st1)"
    "closing_headings env heading = Inr closing" "is_table header" "\<not> is_rating_table header"
    "story = [header, Spacer 1 8] @ body @ closing"
    using player_story_parts [OF assms(2)] by blast
  from parts(1) assms(1) have "ev = Some e" by simp
  with parts(2) have "evaluation_flowables env st0 h3 ns als af e = Inr (body, st1)"
    by (simp add: report_body_def)
  then have "length (filter is_rating_table body) = 4"
    using evaluation_flowables_tables by blast
  moreover have "filter is_rating_table closing = []"
    using closing_headings_plain [OF parts(3)] no_table_no_rating_table by blast
  ultimately show ?thesis
    using parts(5,6) by simp
qed
end
